theory Spec2Isabelle
  imports Complex_Main "HOL-Library.Log_Nat" "HOL-Library.Sublist"
begin

section \<open>Python values\<close>

text \<open>
  A Python \<open>str\<close> is a sequence of Unicode code points; \<open>ustr\<close> reads an ASCII
  literal. The prompt of \<open>main_app.py\<close> holds code points beyond ASCII (U+2011,
  U+2019, U+202F), and \<open>str.strip\<close> removes Unicode white space, so bytes would not do.
\<close>

type_synonym pystr = "nat list"

definition ustr :: "string \<Rightarrow> pystr" where
  "ustr s = map of_char s"

text \<open>
  A Python \<open>float\<close> is an IEEE 754 binary64 value: a finite rational, an infinity or a
  NaN. The sign of zero is not kept (no operation of the two services reads it).
\<close>

datatype pyfloat = Fin rat | PInf | NInf | NaN

text \<open>The exceptions of the builtins, each with the text \<open>str(e)\<close> gives.\<close>

datatype py_exc =
    TypeError pystr
  | ValueError pystr
  | AttributeError pystr
  | OverflowError pystr
  | KeyError pystr
  | IndexError pystr
  | JSONDecodeError pystr

subsection \<open>Rounding to binary64\<close>

text \<open>
  \<open>ilog2 x\<close> is the exponent \<open>e\<close> with \<open>2^e \<le> x < 2^(e+1)\<close> for \<open>x > 0\<close>;
  \<open>rne\<close> rounds to the nearest integer, ties to even; \<open>round64\<close> rounds a rational to
  the nearest binary64 value (53 significant bits, least exponent \<open>-1074\<close>), giving an
  infinity from \<open>2^1024\<close> on.
\<close>

definition ilog2 :: "rat \<Rightarrow> int" where
  "ilog2 x = (if 1 \<le> x then bitlen \<lfloor>x\<rfloor> - 1 else - bitlen (\<lceil>1 / x\<rceil> - 1))"

definition pow2 :: "int \<Rightarrow> rat" where
  "pow2 p = (if 0 \<le> p then 2 ^ nat p else 1 / 2 ^ nat (- p))"

definition rne :: "rat \<Rightarrow> int" where
  "rne q = (let f = \<lfloor>q\<rfloor>; d = q - of_int f in
     if d < 1 / 2 then f else if 1 / 2 < d then f + 1 else if even f then f else f + 1)"

definition round64 :: "rat \<Rightarrow> pyfloat" where
  "round64 x =
     (if x = 0 then Fin 0
      else let u = pow2 (max (ilog2 \<bar>x\<bar> - 52) (- 1074));
               r = of_int (rne (x / u)) * u
           in if 1024 \<le> ilog2 \<bar>r\<bar> then (if 0 < x then PInf else NInf) else Fin r)"

subsection \<open>Float arithmetic\<close>

fun fadd :: "pyfloat \<Rightarrow> pyfloat \<Rightarrow> pyfloat" where
  "fadd (Fin x) (Fin y) = round64 (x + y)"
| "fadd NaN _ = NaN"
| "fadd _ NaN = NaN"
| "fadd PInf NInf = NaN"
| "fadd NInf PInf = NaN"
| "fadd PInf _ = PInf"
| "fadd _ PInf = PInf"
| "fadd NInf _ = NInf"
| "fadd _ NInf = NInf"

fun fneg :: "pyfloat \<Rightarrow> pyfloat" where
  "fneg (Fin x) = Fin (- x)"
| "fneg PInf = NInf"
| "fneg NInf = PInf"
| "fneg NaN = NaN"

definition fsub :: "pyfloat \<Rightarrow> pyfloat \<Rightarrow> pyfloat" where
  "fsub a b = fadd a (fneg b)"

fun fmul :: "pyfloat \<Rightarrow> pyfloat \<Rightarrow> pyfloat" where
  "fmul (Fin x) (Fin y) = round64 (x * y)"
| "fmul NaN _ = NaN"
| "fmul _ NaN = NaN"
| "fmul PInf PInf = PInf"
| "fmul NInf NInf = PInf"
| "fmul PInf NInf = NInf"
| "fmul NInf PInf = NInf"
| "fmul PInf (Fin y) = (if y = 0 then NaN else if 0 < y then PInf else NInf)"
| "fmul NInf (Fin y) = (if y = 0 then NaN else if 0 < y then NInf else PInf)"
| "fmul (Fin x) PInf = (if x = 0 then NaN else if 0 < x then PInf else NInf)"
| "fmul (Fin x) NInf = (if x = 0 then NaN else if 0 < x then NInf else PInf)"

text \<open>
  The comparison \<open>a <= b\<close> of two Python floats: false as soon as one is a NaN. The
  database engines agree with it whenever the right-hand side is no NaN.
\<close>

fun float_le :: "pyfloat \<Rightarrow> pyfloat \<Rightarrow> bool" where
  "float_le (Fin x) (Fin y) = (x \<le> y)"
| "float_le NaN _ = False"
| "float_le _ NaN = False"
| "float_le NInf _ = True"
| "float_le _ PInf = True"
| "float_le PInf _ = False"
| "float_le _ NInf = False"

text \<open>\<open>int(x)\<close> of a float truncates towards zero and raises on an infinity or a NaN.\<close>

fun py_int :: "pyfloat \<Rightarrow> py_exc + int" where
  "py_int (Fin x) = Inr (if 0 \<le> x then \<lfloor>x\<rfloor> else \<lceil>x\<rceil>)"
| "py_int NaN = Inl (ValueError (ustr ''cannot convert float NaN to integer''))"
| "py_int _ = Inl (OverflowError (ustr ''cannot convert float infinity to integer''))"

section \<open>The catalog service (app.py)\<close>

subsection \<open>Target calories\<close>

text \<open>
  \<open>RMR\<close> is the local variable of \<open>compute_target_calories\<close>:
  \<^verbatim>\<open>RMR = 10 * weight_kg + 6.25 * 175 - 5 * 30 + 5\<close>, evaluated from left to right, every
  operation on floats rounding its result. \<open>5 * 30\<close> is an integer product, converted
  when it is subtracted.
\<close>

definition RMR :: "pyfloat \<Rightarrow> pyfloat" where
  "RMR weight_kg =
     fadd (fsub (fadd (fmul (Fin 10) weight_kg) (fmul (Fin (25 / 4)) (Fin 175)))
                (Fin (of_int (5 * 30))))
          (Fin 5)"

definition compute_target_calories :: "pyfloat \<Rightarrow> pystr \<Rightarrow> py_exc + int" where
  "compute_target_calories weight_kg goal =
     (let delta = (if goal = ustr ''gain'' then 500 else - 500)
      in py_int (fadd (RMR weight_kg) (Fin (of_int delta))))"

subsection \<open>JSON values and the builtins applied to them\<close>

text \<open>
  The request body as \<open>request.get_json()\<close> returns it. A \<open>dict\<close> is the list of its
  items (every key once); \<open>null\<close> and a missing body are \<open>JNull\<close>.
\<close>

datatype json =
    JNull
  | JBool bool
  | JInt int
  | JFloat pyfloat
  | JStr pystr
  | JArr "json list"
  | JObj "(pystr \<times> json) list"

text \<open>The truth value Python gives a value in \<open>if not payload\<close> and \<open>if restaurant_id\<close>.\<close>

fun truthy :: "json \<Rightarrow> bool" where
  "truthy JNull = False"
| "truthy (JBool b) = b"
| "truthy (JInt n) = (n \<noteq> 0)"
| "truthy (JFloat f) = (f \<noteq> Fin 0)"
| "truthy (JStr s) = (s \<noteq> [])"
| "truthy (JArr xs) = (xs \<noteq> [])"
| "truthy (JObj kvs) = (kvs \<noteq> [])"

fun type_name :: "json \<Rightarrow> pystr" where
  "type_name JNull = ustr ''NoneType''"
| "type_name (JBool b) = ustr ''bool''"
| "type_name (JInt n) = ustr ''int''"
| "type_name (JFloat f) = ustr ''float''"
| "type_name (JStr s) = ustr ''str''"
| "type_name (JArr xs) = ustr ''list''"
| "type_name (JObj kvs) = ustr ''dict''"

text \<open>A text between apostrophes (code point 39), as the messages of CPython have it.\<close>

definition quoted :: "pystr \<Rightarrow> pystr" where
  "quoted s = [39] @ s @ [39]"

definition no_attribute :: "json \<Rightarrow> string \<Rightarrow> py_exc" where
  "no_attribute v a =
     AttributeError (quoted (type_name v) @ ustr '' object has no attribute '' @ quoted (ustr a))"

text \<open>\<open>payload.get(key)\<close>: the value, \<open>None\<close> for a missing key; only a dict has \<open>get\<close>.\<close>

fun dict_get :: "json \<Rightarrow> pystr \<Rightarrow> py_exc + json" where
  "dict_get (JObj kvs) k = Inr (case map_of kvs k of None \<Rightarrow> JNull | Some v \<Rightarrow> v)"
| "dict_get v k = Inl (no_attribute v ''get'')"

text \<open>
  What the services take from their platform: CPython's parser of a float written as a
  string (the float, or the text of the \<open>ValueError\<close>); what the database engine and
  its driver make of a bound \<open>restaurant_id\<close> that is no number (a predicate on the
  integer column after a coercion, or the driver's exception); and which prices the
  engine of \<open>DATABASE_URL\<close> holds to be \<open><= NaN\<close> (none in SQLite, where a NaN is
  bound as NULL; every price in PostgreSQL, where a NaN is above every number).
\<close>

record platform =
  str_to_float :: "pystr \<Rightarrow> pystr + pyfloat"
  bind_other :: "json \<Rightarrow> py_exc + (int \<Rightarrow> bool)"
  le_nan :: "pyfloat \<Rightarrow> bool"

definition float_type_error :: "json \<Rightarrow> py_exc" where
  "float_type_error v =
     TypeError (ustr ''float() argument must be a string or a real number, not ''
                @ quoted (type_name v))"

text \<open>\<open>float(v)\<close>. An integer is rounded to the nearest float and raises when too large.\<close>

fun py_float :: "platform \<Rightarrow> json \<Rightarrow> py_exc + pyfloat" where
  "py_float pf (JBool b) = Inr (Fin (if b then 1 else 0))"
| "py_float pf (JInt n) =
     (case round64 (of_int n) of
        Fin x \<Rightarrow> Inr (Fin x)
      | _ \<Rightarrow> Inl (OverflowError (ustr ''int too large to convert to float'')))"
| "py_float pf (JFloat f) = Inr f"
| "py_float pf (JStr s) =
     (case str_to_float pf s of Inl msg \<Rightarrow> Inl (ValueError msg) | Inr f \<Rightarrow> Inr f)"
| "py_float pf v = Inl (float_type_error v)"

text \<open>
  \<open>v.lower()\<close>. Only the letters A to Z are folded: Python's Unicode lowering maps no
  other code point to a single letter of \<open>gain\<close> or \<open>lose\<close>, so the test of the goal
  decides the same.
\<close>

definition lower_cp :: "nat \<Rightarrow> nat" where
  "lower_cp c = (if 65 \<le> c \<and> c \<le> 90 then c + 32 else c)"

fun py_lower :: "json \<Rightarrow> py_exc + pystr" where
  "py_lower (JStr s) = Inr (map lower_cp s)"
| "py_lower v = Inl (no_attribute v ''lower'')"

fun exc_text :: "py_exc \<Rightarrow> pystr" where
  "exc_text (TypeError m) = m"
| "exc_text (ValueError m) = m"
| "exc_text (AttributeError m) = m"
| "exc_text (OverflowError m) = m"
| "exc_text (KeyError k) = k"
| "exc_text (IndexError m) = m"
| "exc_text (JSONDecodeError m) = m"

subsection \<open>The tables\<close>

record Restaurant =
  r_id :: int
  r_name :: pystr
  address :: "pystr option"
  phone :: "pystr option"

text \<open>Every column of \<open>MenuItem\<close> but the key and the name may be NULL.\<close>

record MenuItem =
  m_id :: int
  restaurant_id :: "int option"
  m_name :: pystr
  calories :: "int option"
  protein_g :: "pyfloat option"
  carbs_g :: "pyfloat option"
  fats_g :: "pyfloat option"
  price_usd :: "pyfloat option"

record catalog_db =
  restaurants :: "Restaurant list"
  menu_items :: "MenuItem list"

text \<open>The session of a request: not yet made, in use, or closed.\<close>

datatype session = Unopened | Active | Closed

text \<open>
  What a handler of Flask ends with besides a response: \<open>abort(code, message)\<close>, or
  an exception nobody catches, which Flask answers with status 500.
\<close>

datatype http_error = Abort nat pystr | Uncaught py_exc

subsection \<open>GET /restaurants\<close>

record restaurant_json =
  rj_id :: int
  rj_name :: pystr
  rj_address :: "pystr option"
  rj_phone :: "pystr option"

definition get_restaurants :: "catalog_db \<Rightarrow> (restaurant_json list \<times> nat) \<times> session" where
  "get_restaurants db =
     (let data = map (\<lambda>r. \<lparr>rj_id = r_id r, rj_name = r_name r,
                              rj_address = address r, rj_phone = phone r\<rparr>) (restaurants db)
      in ((data, 200), Closed))"

subsection \<open>POST /recommend\<close>

text \<open>
  The \<open>try\<close> block of \<open>recommend\<close> (lines 91 to 96): the four required fields in the
  order of the source, the first exception ending the block, then \<open>restaurant_id\<close>.
\<close>

definition parse_payload ::
  "platform \<Rightarrow> json \<Rightarrow> py_exc + (pyfloat \<times> pyfloat \<times> pyfloat \<times> pystr \<times> json)" where
  "parse_payload pf payload =
     (case dict_get payload (ustr ''tall_cm'') of Inl e \<Rightarrow> Inl e | Inr v1 \<Rightarrow>
      case py_float pf v1 of Inl e \<Rightarrow> Inl e | Inr tall_cm \<Rightarrow>
      case dict_get payload (ustr ''weight_kg'') of Inl e \<Rightarrow> Inl e | Inr v2 \<Rightarrow>
      case py_float pf v2 of Inl e \<Rightarrow> Inl e | Inr weight_kg \<Rightarrow>
      case dict_get payload (ustr ''budget_usd'') of Inl e \<Rightarrow> Inl e | Inr v3 \<Rightarrow>
      case py_float pf v3 of Inl e \<Rightarrow> Inl e | Inr budget_usd \<Rightarrow>
      case dict_get payload (ustr ''goal'') of Inl e \<Rightarrow> Inl e | Inr v4 \<Rightarrow>
      case py_lower v4 of Inl e \<Rightarrow> Inl e | Inr goal \<Rightarrow>
      case dict_get payload (ustr ''restaurant_id'') of Inl e \<Rightarrow> Inl e | Inr rid \<Rightarrow>
      Inr (tall_cm, weight_kg, budget_usd, goal, rid))"

definition goal_message :: pystr where
  "goal_message = ustr ''Goal must be '' @ quoted (ustr ''gain'') @ ustr '' or '' @ quoted (ustr ''lose'')"

text \<open>
  \<open>MenuItem.restaurant_id == restaurant_id\<close> as the engine decides it on a row: a NULL
  column equals nothing, a number is compared by value (\<open>True\<close> is 1), anything else
  is left to the platform.
\<close>

fun bind_restaurant_id :: "platform \<Rightarrow> json \<Rightarrow> py_exc + (int \<Rightarrow> bool)" where
  "bind_restaurant_id pf (JInt k) = Inr (\<lambda>n. n = k)"
| "bind_restaurant_id pf (JBool b) = Inr (\<lambda>n. n = (if b then 1 else 0))"
| "bind_restaurant_id pf (JFloat f) = Inr (\<lambda>n. f = Fin (of_int n))"
| "bind_restaurant_id pf v = bind_other pf v"

definition restaurant_is :: "(int \<Rightarrow> bool) \<Rightarrow> MenuItem \<Rightarrow> bool" where
  "restaurant_is same i = (case restaurant_id i of None \<Rightarrow> False | Some n \<Rightarrow> same n)"

text \<open>
  \<open>MenuItem.price_usd <= budget_usd\<close> as the engine decides it on a price that is not
  NULL: the order of the floats when the budget is a number or an infinity, and the
  platform's answer when the budget is a NaN.
\<close>

definition price_within :: "platform \<Rightarrow> pyfloat \<Rightarrow> pyfloat \<Rightarrow> bool" where
  "price_within pf p budget_usd = (if budget_usd = NaN then le_nan pf p else float_le p budget_usd)"

text \<open>
  The second filter (lines 115 to 119): price within the budget and calories within
  200 of the target; a NULL price or calorie count satisfies neither comparison.
\<close>

definition in_bracket :: "platform \<Rightarrow> pyfloat \<Rightarrow> int \<Rightarrow> MenuItem \<Rightarrow> bool" where
  "in_bracket pf budget_usd target_cal i =
     ((case price_usd i of None \<Rightarrow> False | Some p \<Rightarrow> price_within pf p budget_usd)
      \<and> (case calories i of None \<Rightarrow> False
          | Some c \<Rightarrow> c \<le> target_cal + 200 \<and> c \<ge> target_cal - 200))"

text \<open>
  The query of lines 108 to 121, run by \<open>q.limit(10).all()\<close>; the rows come in the
  order of the table, no \<open>ORDER BY\<close> being given.
\<close>

definition run_query ::
  "platform \<Rightarrow> catalog_db \<Rightarrow> json \<Rightarrow> pyfloat \<Rightarrow> int \<Rightarrow> py_exc + MenuItem list" where
  "run_query pf db rid budget_usd target_cal =
     (if truthy rid
      then (case bind_restaurant_id pf rid of
              Inl e \<Rightarrow> Inl e
            | Inr same \<Rightarrow>
                Inr (take 10 (filter (in_bracket pf budget_usd target_cal)
                                (filter (restaurant_is same) (menu_items db)))))
      else Inr (take 10 (filter (in_bracket pf budget_usd target_cal) (menu_items db))))"

record recommended =
  out_name :: pystr
  out_calories :: "int option"
  out_protein_g :: "pyfloat option"
  out_carbs_g :: "pyfloat option"
  out_fats_g :: "pyfloat option"
  out_price_usd :: "pyfloat option"
  out_restaurant_id :: "int option"
  out_restaurant_name :: pystr

text \<open>\<open>i.restaurant\<close>: the restaurant the foreign key points to, \<open>None\<close> when there is none.\<close>

definition restaurant_of :: "catalog_db \<Rightarrow> MenuItem \<Rightarrow> Restaurant option" where
  "restaurant_of db i =
     (case restaurant_id i of
        None \<Rightarrow> None
      | Some n \<Rightarrow> find (\<lambda>r. r_id r = n) (restaurants db))"

definition render :: "catalog_db \<Rightarrow> MenuItem \<Rightarrow> py_exc + recommended" where
  "render db i =
     (case restaurant_of db i of
        None \<Rightarrow> Inl (no_attribute JNull ''name'')
      | Some r \<Rightarrow>
          Inr \<lparr>out_name = m_name i, out_calories = calories i, out_protein_g = protein_g i,
               out_carbs_g = carbs_g i, out_fats_g = fats_g i, out_price_usd = price_usd i,
               out_restaurant_id = restaurant_id i, out_restaurant_name = r_name r\<rparr>)"

text \<open>The list comprehension of lines 122 to 134: the first exception ends it.\<close>

fun render_all :: "catalog_db \<Rightarrow> MenuItem list \<Rightarrow> py_exc + recommended list" where
  "render_all db [] = Inr []"
| "render_all db (i # rest) =
     (case render db i of
        Inl e \<Rightarrow> Inl e
      | Inr x \<Rightarrow> (case render_all db rest of Inl e \<Rightarrow> Inl e | Inr xs \<Rightarrow> Inr (x # xs)))"

text \<open>
  Lines 122 to 136: the response is built, then \<open>session.close()\<close> runs and the
  handler returns; an exception in between leaves the handler before the close.
\<close>

definition respond :: "catalog_db \<Rightarrow> MenuItem list \<Rightarrow> (http_error + recommended list) \<times> session" where
  "respond db items =
     (case render_all db items of
        Inl e \<Rightarrow> (Inl (Uncaught e), Active)
      | Inr res \<Rightarrow> (Inr res, Closed))"

text \<open>
  \<open>recommend\<close> of \<open>app.py\<close>: the outcome of the handler and the state in which it
  leaves its session, which \<open>SessionLocal()\<close> makes on line 107 only.
\<close>

definition app_recommend ::
  "platform \<Rightarrow> json \<Rightarrow> catalog_db \<Rightarrow> (http_error + recommended list) \<times> session" where
  "app_recommend pf payload db =
     (if \<not> truthy payload then (Inl (Abort 400 (ustr ''Missing JSON payload'')), Unopened)
      else case parse_payload pf payload of
        Inl e \<Rightarrow> (Inl (Abort 400 (ustr ''Invalid payload: '' @ exc_text e)), Unopened)
      | Inr (tall_cm, weight_kg, budget_usd, goal, rid) \<Rightarrow>
          if goal \<noteq> ustr ''gain'' \<and> goal \<noteq> ustr ''lose''
          then (Inl (Abort 400 goal_message), Unopened)
          else (case compute_target_calories weight_kg goal of
                  Inl e \<Rightarrow> (Inl (Uncaught e), Unopened)
                | Inr target_cal \<Rightarrow>
                    (case run_query pf db rid budget_usd target_cal of
                       Inl e \<Rightarrow> (Inl (Uncaught e), Active)
                     | Inr items \<Rightarrow> respond db items)))"

subsection \<open>What a message says about a field\<close>

text \<open>A message names a field when the field's name occurs in it, whatever the case.\<close>

definition names_field :: "pystr \<Rightarrow> string \<Rightarrow> bool" where
  "names_field msg field = sublist (ustr field) (map lower_cp msg)"

text \<open>
  A required numeric field is unusable when it is missing or \<open>float()\<close> refuses it;
  the goal is unusable when it is missing, no string, or outside the enumeration.
\<close>

definition bad_number :: "platform \<Rightarrow> json \<Rightarrow> string \<Rightarrow> bool" where
  "bad_number pf payload field =
     (case dict_get payload (ustr field) of
        Inl e \<Rightarrow> True
      | Inr v \<Rightarrow> (case py_float pf v of Inl e \<Rightarrow> True | Inr x \<Rightarrow> False))"

definition bad_goal :: "json \<Rightarrow> bool" where
  "bad_goal payload =
     (case dict_get payload (ustr ''goal'') of
        Inl e \<Rightarrow> True
      | Inr v \<Rightarrow> (case py_lower v of
                   Inl e \<Rightarrow> True
                 | Inr g \<Rightarrow> g \<noteq> ustr ''gain'' \<and> g \<noteq> ustr ''lose''))"

section \<open>The plan service (main_app.py)\<close>

subsection \<open>Input models\<close>

datatype goal_literal = lose_weight | gain_weight

text \<open>
  A profile as the handler receives it, after the framework has validated the
  request: \<open>height_cm\<close>, \<open>weight_kg\<close> and \<open>daily_budget_egp\<close> are greater than 0.
\<close>

record UserProfile =
  height_cm :: int
  weight_kg :: pyfloat
  daily_budget_egp :: pyfloat
  goal :: goal_literal

record RecommendationRequest =
  profile :: UserProfile

subsection \<open>The tables and the affordable items\<close>

text \<open>
  The two tables of the query of \<open>fetch_affordable_items\<close>, with the columns it reads;
  a price is an exact number of the database.
\<close>

record restaurant_row =
  rr_id :: int
  rr_name :: "pystr option"

record menu_item_row =
  mi_restaurant_id :: "int option"
  item_en :: "pystr option"
  item_ar :: "pystr option"
  price_egp :: "rat option"

record plan_db =
  restaurant_table :: "restaurant_row list"
  menu_item_table :: "menu_item_row list"

type_synonym plan_row = "pystr option \<times> pystr option \<times> pystr option \<times> rat"

text \<open>\<open>m.price_egp <= %s\<close> in PostgreSQL, where a NaN is above every number.\<close>

fun price_le :: "rat \<Rightarrow> pyfloat \<Rightarrow> bool" where
  "price_le p (Fin b) = (p \<le> b)"
| "price_le p PInf = True"
| "price_le p NInf = False"
| "price_le p NaN = True"

text \<open>The join and the \<open>WHERE\<close> clause: a NULL key or price gives no row.\<close>

definition affordable_rows :: "plan_db \<Rightarrow> pyfloat \<Rightarrow> plan_row list" where
  "affordable_rows conn budget =
     [(rr_name r, item_en m, item_ar m, p).
        m \<leftarrow> menu_item_table conn, r \<leftarrow> restaurant_table conn,
        p \<leftarrow> (case price_egp m of None \<Rightarrow> [] | Some p \<Rightarrow> [p]),
        mi_restaurant_id m = Some (rr_id r), price_le p budget]"

record plan_item =
  restaurant :: "pystr option"
  en :: "pystr option"
  ar :: "pystr option"
  price :: pyfloat

text \<open>
  What the plan service takes from its platform: the order \<open>ORDER BY random()\<close> puts
  the rows in, the two float formats of the prompt (\<open>str\<close> and \<open>:.2f\<close>), and the
  inference service, which answers a prompt.
\<close>

datatype hf_outcome = Response nat "pystr + json" | NoResponse

record plan_platform =
  order_by_random :: "plan_row list \<Rightarrow> plan_row list"
  str_float :: "pyfloat \<Rightarrow> pystr"
  format_2f :: "pyfloat \<Rightarrow> pystr"
  hf_endpoint :: "pystr \<Rightarrow> hf_outcome"

definition fetch_affordable_items :: "plan_platform \<Rightarrow> plan_db \<Rightarrow> pyfloat \<Rightarrow> plan_item list" where
  "fetch_affordable_items pp conn budget =
     (let rows = take 30 (order_by_random pp (affordable_rows conn budget))
      in map (\<lambda>(r, e, a, p). \<lparr>restaurant = r, en = e, ar = a, price = round64 p\<rparr>) rows)"

subsection \<open>The prompt\<close>

fun digits :: "nat \<Rightarrow> pystr" where
  "digits n = (if n < 10 then [48 + n] else digits (n div 10) @ [48 + n mod 10])"

declare digits.simps [simp del]

definition str_int :: "int \<Rightarrow> pystr" where
  "str_int n = (if n < 0 then 45 # digits (nat (- n)) else digits (nat n))"

text \<open>A text column in an f-string: \<open>None\<close> is written \<open>None\<close>.\<close>

fun str_opt :: "pystr option \<Rightarrow> pystr" where
  "str_opt None = ustr ''None''"
| "str_opt (Some s) = s"

fun join :: "pystr \<Rightarrow> pystr list \<Rightarrow> pystr" where
  "join sep [] = []"
| "join sep [x] = x"
| "join sep (x # y # ys) = x @ sep @ join sep (y # ys)"

definition profile_line :: "plan_platform \<Rightarrow> UserProfile \<Rightarrow> pystr" where
  "profile_line pp p =
     ustr ''Height: '' @ str_int (height_cm p) @ [0x202F] @ ustr ''cm, Weight: ''
     @ str_float pp (weight_kg p) @ [0x202F] @ ustr ''kg, ''
     @ ustr ''Budget: '' @ str_float pp (daily_budget_egp p) @ [0x202F] @ ustr ''EGP per day, ''
     @ ustr ''Goal: '' @ (if goal p = lose_weight then ustr ''lose weight'' else ustr ''gain weight'')
     @ ustr ''.''"

definition table_row :: "plan_platform \<Rightarrow> plan_item \<Rightarrow> pystr" where
  "table_row pp it =
     ustr ''| '' @ str_opt (restaurant it) @ ustr '' | '' @ str_opt (en it) @ ustr '' | ''
     @ str_opt (ar it) @ ustr '' | '' @ format_2f pp (price it) @ ustr '' |''"

definition instruction :: pystr where
  "instruction =
     ustr ''Using the table above, propose a full'' @ [0x2011]
     @ ustr ''day meal plan (breakfast, lunch, dinner, up to two snacks) ''
     @ ustr ''that fits the budget and the user'' @ [0x2019]
     @ ustr ''s goal. For each dish list restaurant, English & Arabic name, price, ''
     @ ustr ''and a short nutrition note (e.g., high'' @ [0x2011] @ ustr ''protein, low'' @ [0x2011]
     @ ustr ''carb). End with the total daily cost and a friendly motivational closing.''"

definition build_prompt :: "plan_platform \<Rightarrow> UserProfile \<Rightarrow> plan_item list \<Rightarrow> pystr" where
  "build_prompt pp p items =
     (let table = [ustr ''| Restaurant | Item (EN) | Item (AR) | Price (EGP) |'',
                   ustr ''|------------|-----------|-----------|------------|'']
                  @ map (table_row pp) items;
          menu_table = join [10] table
      in profile_line pp p @ [10, 10] @ menu_table @ [10, 10] @ instruction)"

subsection \<open>The call of the inference service\<close>

text \<open>
  What a handler of FastAPI ends with besides a response: an \<open>HTTPException\<close> with its
  status and detail, the \<open>HTTPStatusError\<close> of httpx with the status of the response it
  carries, a failure of the transport, or an exception of a builtin.
\<close>

datatype api_error =
    HTTPException nat pystr
  | HTTPStatusError nat
  | RequestError
  | Raised py_exc

definition not_subscriptable :: "json \<Rightarrow> py_exc" where
  "not_subscriptable v = TypeError (quoted (type_name v) @ ustr '' object is not subscriptable'')"

text \<open>\<open>v[0]\<close> and \<open>v["generated_text"]\<close> on a parsed JSON value.\<close>

fun subscript_0 :: "json \<Rightarrow> py_exc + json" where
  "subscript_0 (JArr []) = Inl (IndexError (ustr ''list index out of range''))"
| "subscript_0 (JArr (x # xs)) = Inr x"
| "subscript_0 (JStr []) = Inl (IndexError (ustr ''string index out of range''))"
| "subscript_0 (JStr (c # cs)) = Inr (JStr [c])"
| "subscript_0 (JObj kvs) = Inl (KeyError (ustr ''0''))"
| "subscript_0 v = Inl (not_subscriptable v)"

fun subscript_key :: "json \<Rightarrow> pystr \<Rightarrow> py_exc + json" where
  "subscript_key (JObj kvs) k =
     (case map_of kvs k of None \<Rightarrow> Inl (KeyError (quoted k)) | Some v \<Rightarrow> Inr v)"
| "subscript_key (JArr xs) k =
     Inl (TypeError (ustr ''list indices must be integers or slices, not str''))"
| "subscript_key (JStr s) k =
     Inl (TypeError (ustr ''string indices must be integers, not '' @ quoted (ustr ''str'')))"
| "subscript_key v k = Inl (not_subscriptable v)"

text \<open>\<open>resp.json()[0]["generated_text"]\<close>; a body that is no JSON raises in \<open>resp.json()\<close>.\<close>

definition generated_text :: "pystr + json \<Rightarrow> py_exc + json" where
  "generated_text body =
     (case body of
        Inl msg \<Rightarrow> Inl (JSONDecodeError msg)
      | Inr v \<Rightarrow> (case subscript_0 v of
                   Inl e \<Rightarrow> Inl e
                 | Inr first \<Rightarrow> subscript_key first (ustr ''generated_text'')))"

text \<open>\<open>resp.raise_for_status()\<close> raises for every status outside 200 to 299.\<close>

definition is_success :: "nat \<Rightarrow> bool" where
  "is_success status_code = (200 \<le> status_code \<and> status_code \<le> 299)"

definition quota_message :: pystr where
  "quota_message = ustr ''HF free'' @ [0x2011] @ ustr ''tier token quota exceeded''"

text \<open>
  \<open>call_hf\<close>: one POST of the prompt, entered in the log of the prompts posted so far,
  then the translation of the response.
\<close>

definition call_hf :: "plan_platform \<Rightarrow> pystr \<Rightarrow> pystr list \<Rightarrow> (api_error + json) \<times> pystr list" where
  "call_hf pp prompt posted =
     (let posted' = posted @ [prompt] in
      case hf_endpoint pp prompt of
        NoResponse \<Rightarrow> (Inl RequestError, posted')
      | Response status_code body \<Rightarrow>
          if status_code = 429 then (Inl (HTTPException 429 quota_message), posted')
          else if \<not> is_success status_code then (Inl (HTTPStatusError status_code), posted')
          else (case generated_text body of
                  Inl e \<Rightarrow> (Inl (Raised e), posted')
                | Inr v \<Rightarrow> (Inr v, posted')))"

subsection \<open>The endpoint\<close>

text \<open>The white space of \<open>str.strip()\<close>: the code points for which \<open>str.isspace\<close> holds.\<close>

definition isspace :: "nat \<Rightarrow> bool" where
  "isspace c =
     ((9 \<le> c \<and> c \<le> 13) \<or> (28 \<le> c \<and> c \<le> 32) \<or> c = 0x85 \<or> c = 0xA0 \<or> c = 0x1680
      \<or> (0x2000 \<le> c \<and> c \<le> 0x200A) \<or> c = 0x2028 \<or> c = 0x2029 \<or> c = 0x202F
      \<or> c = 0x205F \<or> c = 0x3000)"

definition strip :: "pystr \<Rightarrow> pystr" where
  "strip s = rev (dropWhile isspace (rev (dropWhile isspace s)))"

text \<open>
  \<open>recommend\<close> of \<open>main_app.py\<close>: the outcome of the handler (on success the value of
  \<open>email_body\<close>) and the prompts it has posted to the inference service.
\<close>

definition main_app_recommend ::
  "plan_platform \<Rightarrow> RecommendationRequest \<Rightarrow> plan_db \<Rightarrow> (api_error + pystr) \<times> pystr list" where
  "main_app_recommend pp req db =
     (let items = fetch_affordable_items pp db (daily_budget_egp (profile req)) in
      if items = [] then (Inl (HTTPException 404 (ustr ''No menu items within budget'')), [])
      else let prompt = build_prompt pp (profile req) items in
        (case call_hf pp prompt [] of
           (Inl e, posted) \<Rightarrow> (Inl e, posted)
         | (Inr (JStr llm_answer), posted) \<Rightarrow>
             (Inr (if prefix prompt llm_answer
                   then strip (drop (length prompt) llm_answer)
                   else llm_answer), posted)
         | (Inr v, posted) \<Rightarrow> (Inl (Raised (no_attribute v ''startswith'')), posted)))"

text \<open>
  \<open>get_db\<close>: the connection is made, the handler runs with it, and the \<open>finally\<close>
  clause closes it however the handler ended.
\<close>

definition get_db :: "(plan_db \<Rightarrow> 'a) \<Rightarrow> plan_db \<Rightarrow> 'a \<times> session" where
  "get_db handler conn = (let outcome = handler conn in (outcome, Closed))"

definition serve_recommend ::
  "plan_platform \<Rightarrow> RecommendationRequest \<Rightarrow> plan_db
     \<Rightarrow> ((api_error + pystr) \<times> pystr list) \<times> session" where
  "serve_recommend pp req db = get_db (main_app_recommend pp req) db"

text \<open>
  What the caller of the endpoint receives. FastAPI answers an \<open>HTTPException\<close> with
  its status and its detail; \<open>main_app.py\<close> catches nothing and registers no handler
  of exceptions, so any other exception is answered with status 500 and a fixed body
  that says nothing of the exception.
\<close>

datatype http_body = EmailBody pystr | Detail pystr | InternalServerError

fun http_response :: "api_error + pystr \<Rightarrow> nat \<times> http_body" where
  "http_response (Inr email_body) = (200, EmailBody email_body)"
| "http_response (Inl (HTTPException status_code detail)) = (status_code, Detail detail)"
| "http_response (Inl e) = (500, InternalServerError)"

section \<open>Example data\<close>

text \<open>
  A platform whose string parser refuses every string, whose driver refuses every
  bound value that is no number and whose engine holds no price to be \<open><= NaN\<close>, and
  the same platform with an engine that holds every price to be; two restaurants
  with a dish each, both dishes within the budget and the bracket of the request
  below; a dish without a restaurant.
\<close>

definition example_platform :: platform where
  "example_platform =
     \<lparr>str_to_float = (\<lambda>s. Inl (ustr ''could not convert string to float'')),
      bind_other = (\<lambda>v. Inl (TypeError (ustr ''unsupported type''))),
      le_nan = (\<lambda>p. False)\<rparr>"

definition nan_above_platform :: platform where
  "nan_above_platform = example_platform\<lparr>le_nan := (\<lambda>p. True)\<rparr>"

definition salad :: MenuItem where
  "salad = \<lparr>m_id = 1, restaurant_id = Some 1, m_name = ustr ''Salad'', calories = Some 1100,
             protein_g = Some (Fin 9), carbs_g = Some (Fin 20), fats_g = Some (Fin 7),
             price_usd = Some (Fin 8)\<rparr>"

definition wrap :: MenuItem where
  "wrap = \<lparr>m_id = 2, restaurant_id = Some 2, m_name = ustr ''Wrap'', calories = Some 1250,
            protein_g = Some (Fin 30), carbs_g = Some (Fin 40), fats_g = Some (Fin 12),
            price_usd = Some (Fin 10)\<rparr>"

definition soup :: MenuItem where
  "soup = \<lparr>m_id = 3, restaurant_id = None, m_name = ustr ''Soup'', calories = Some 1200,
            protein_g = None, carbs_g = None, fats_g = None, price_usd = Some (Fin 5)\<rparr>"

definition two_restaurants :: "Restaurant list" where
  "two_restaurants =
     [\<lparr>r_id = 1, r_name = ustr ''Alpha'', address = None, phone = None\<rparr>,
      \<lparr>r_id = 2, r_name = ustr ''Beta'', address = None, phone = None\<rparr>]"

definition example_db :: catalog_db where
  "example_db = \<lparr>restaurants = two_restaurants, menu_items = [salad, wrap]\<rparr>"

definition orphan_db :: catalog_db where
  "orphan_db = \<lparr>restaurants = two_restaurants, menu_items = [salad, soup]\<rparr>"

definition salads_db :: catalog_db where
  "salads_db = \<lparr>restaurants = two_restaurants, menu_items = replicate 12 salad\<rparr>"

text \<open>The fields of a request for a loss of weight: the target is 1148 kcal.\<close>

definition example_fields :: "(pystr \<times> json) list" where
  "example_fields =
     [(ustr ''tall_cm'', JInt 175), (ustr ''weight_kg'', JInt 70),
      (ustr ''budget_usd'', JInt 12), (ustr ''goal'', JStr (ustr ''lose''))]"

definition salad_json :: recommended where
  "salad_json =
     \<lparr>out_name = ustr ''Salad'', out_calories = Some 1100, out_protein_g = Some (Fin 9),
      out_carbs_g = Some (Fin 20), out_fats_g = Some (Fin 7), out_price_usd = Some (Fin 8),
      out_restaurant_id = Some 1, out_restaurant_name = ustr ''Alpha''\<rparr>"

definition wrap_json :: recommended where
  "wrap_json =
     \<lparr>out_name = ustr ''Wrap'', out_calories = Some 1250, out_protein_g = Some (Fin 30),
      out_carbs_g = Some (Fin 40), out_fats_g = Some (Fin 12), out_price_usd = Some (Fin 10),
      out_restaurant_id = Some 2, out_restaurant_name = ustr ''Beta''\<rparr>"

text \<open>
  A plan platform that keeps the order of the rows, writes every float as \<open>0\<close> and
  answers every prompt as \<open>answer\<close> says; a menu of one dish and a menu of 31 dishes,
  at 20 EGP each; the profile of the scenario of the specification.
\<close>

definition example_plan_platform :: "(pystr \<Rightarrow> hf_outcome) \<Rightarrow> plan_platform" where
  "example_plan_platform answer =
     \<lparr>order_by_random = (\<lambda>rows. rows), str_float = (\<lambda>f. ustr ''0''),
      format_2f = (\<lambda>f. ustr ''0''), hf_endpoint = answer\<rparr>"

definition koshari :: menu_item_row where
  "koshari = \<lparr>mi_restaurant_id = Some 1, item_en = Some (ustr ''Koshari''),
               item_ar = None, price_egp = Some 20\<rparr>"

definition example_plan_db :: plan_db where
  "example_plan_db =
     \<lparr>restaurant_table = [\<lparr>rr_id = 1, rr_name = Some (ustr ''Alpha'')\<rparr>],
      menu_item_table = [koshari]\<rparr>"

definition large_plan_db :: plan_db where
  "large_plan_db =
     \<lparr>restaurant_table = [\<lparr>rr_id = 1, rr_name = Some (ustr ''Alpha'')\<rparr>],
      menu_item_table = replicate 31 koshari\<rparr>"

definition example_request :: "pyfloat \<Rightarrow> RecommendationRequest" where
  "example_request budget =
     \<lparr>profile = \<lparr>height_cm = 175, weight_kg = Fin 70, daily_budget_egp = budget,
                  goal = lose_weight\<rparr>\<rparr>"

text \<open>An answer that echoes the prompt and adds a plan between white space.\<close>

definition echo :: "pystr \<Rightarrow> hf_outcome" where
  "echo prompt =
     Response 200 (Inr (JArr [JObj [(ustr ''generated_text'',
                                      JStr (prompt @ [10, 32] @ ustr ''Plan'' @ [32, 10]))]]))"

definition koshari_item :: plan_item where
  "koshari_item = \<lparr>restaurant = Some (ustr ''Alpha''), en = Some (ustr ''Koshari''),
                    ar = None, price = Fin 20\<rparr>"

text \<open>An answer without the prompt, and two answers that are no success.\<close>

definition plain :: "pystr \<Rightarrow> hf_outcome" where
  "plain prompt =
     Response 200 (Inr (JArr [JObj [(ustr ''generated_text'', JStr (ustr '' Plan ''))]]))"

definition busy :: "pystr \<Rightarrow> hf_outcome" where
  "busy prompt = Response 429 (Inl [])"

definition down :: "pystr \<Rightarrow> hf_outcome" where
  "down prompt = Response 503 (Inl [])"




section \<open>Properties of the rounding\<close>

lemma pow2_power_int: "pow2 p = power_int 2 p"
  by (simp add: pow2_def power_int_def inverse_eq_divide power_one_over)

lemma pow2_pos: "0 < pow2 p"
  by (simp add: pow2_power_int zero_less_power_int)

lemma pow2_add: "pow2 (a + b) = pow2 a * pow2 b"
  by (simp add: pow2_power_int power_int_add)

lemma pow2_nat: "pow2 (int k) = 2 ^ k"
  by (simp add: pow2_def)

lemma pow2_mono: "a \<le> b \<Longrightarrow> pow2 a \<le> pow2 b"
  by (simp add: pow2_power_int power_int_increasing)

lemma rne_ge_floor: "\<lfloor>q\<rfloor> \<le> rne q"
  by (simp add: rne_def Let_def)

lemma rne_ge:
  assumes "of_int m \<le> q"
  shows "m \<le> rne q"
proof -
  from assms have "m \<le> \<lfloor>q\<rfloor>" by (simp add: le_floor_iff)
  then show ?thesis using rne_ge_floor [of q] by linarith
qed

text \<open>From \<open>2^k\<close> on, \<open>ilog2\<close> is at least \<open>k\<close> and \<open>2^(ilog2 x)\<close> is below \<open>x\<close>.\<close>

lemma ilog2_ge:
  assumes "2 ^ k \<le> x"
  shows "int k \<le> ilog2 x" and "pow2 (ilog2 x) \<le> x"
proof -
  let ?n = "\<lfloor>x\<rfloor>"
  have x1: "1 \<le> x" using assms one_le_power [of "2::rat" k] by linarith
  have n_ge: "2 ^ k \<le> ?n" using assms by (simp add: le_floor_iff)
  then have n_pos: "0 < ?n" using zero_less_power [of "2::int" k] by linarith
  have e: "ilog2 x = bitlen ?n - 1" using x1 by (simp add: ilog2_def)
  from bitlen_bounds [OF n_pos]
  have lo: "2 ^ nat (bitlen ?n - 1) \<le> ?n" and hi: "?n < 2 ^ nat (bitlen ?n)" by simp_all
  from n_ge hi have "(2::int) ^ k < 2 ^ nat (bitlen ?n)" by linarith
  then have "k < nat (bitlen ?n)" by (simp add: power_strict_increasing_iff)
  then show "int k \<le> ilog2 x" using e by linarith
  then have e0: "0 \<le> ilog2 x" by linarith
  have "pow2 (ilog2 x) = 2 ^ nat (bitlen ?n - 1)" using e e0 by (simp add: pow2_def)
  also have "\<dots> = of_int (2 ^ nat (bitlen ?n - 1))" by simp
  also have "\<dots> \<le> of_int ?n" using lo by (simp only: of_int_le_iff)
  also have "\<dots> \<le> x" by simp
  finally show "pow2 (ilog2 x) \<le> x" .
qed

text \<open>Rounding never takes a value below a power of two that it reaches.\<close>

lemma round64_ge_pow2:
  assumes "2 ^ k \<le> x" and "round64 x = Fin r"
  shows "2 ^ k \<le> r"
proof -
  let ?e = "ilog2 x"
  let ?u = "pow2 (?e - 52)"
  have xpos: "0 < x" using assms(1) zero_less_power [of "2::rat" k] by linarith
  have ke: "int k \<le> ?e" and ex: "pow2 ?e \<le> x" using ilog2_ge [OF assms(1)] by simp_all
  have p: "max (?e - 52) (- 1074) = ?e - 52" using ke by simp
  have r: "r = of_int (rne (x / ?u)) * ?u"
    using assms(2) xpos p by (simp add: round64_def Let_def split: if_splits)
  have "pow2 ?e = pow2 52 * ?u" using pow2_add [of 52 "?e - 52"] by simp
  then have "pow2 52 * ?u \<le> x" using ex by simp
  then have "pow2 52 \<le> x / ?u" using pow2_pos [of "?e - 52"] by (simp add: pos_le_divide_eq)
  moreover have "pow2 52 = of_int (2 ^ 52)" by (simp add: pow2_def)
  ultimately have "2 ^ 52 \<le> rne (x / ?u)" using rne_ge [of "2 ^ 52" "x / ?u"] by simp
  then have "of_int (2 ^ 52) \<le> (of_int (rne (x / ?u)) :: rat)" by (simp only: of_int_le_iff)
  then have "of_int (2 ^ 52) * ?u \<le> of_int (rne (x / ?u)) * ?u"
    using pow2_pos [of "?e - 52"] by (simp add: mult_right_mono)
  moreover have "of_int (2 ^ 52) * ?u = pow2 ?e"
    using pow2_add [of 52 "?e - 52"] by (simp add: pow2_def)
  ultimately have "pow2 ?e \<le> r" using r by simp
  moreover have "pow2 (int k) \<le> pow2 ?e" using ke by (rule pow2_mono)
  ultimately show ?thesis by (simp add: pow2_nat)
qed

lemma round64_nonneg:
  assumes "0 \<le> x" and "round64 x = Fin r"
  shows "0 \<le> r"
proof (cases "x = 0")
  case True
  then show ?thesis using assms(2) by (simp add: round64_def)
next
  case False
  let ?u = "pow2 (max (ilog2 \<bar>x\<bar> - 52) (- 1074))"
  have r: "r = of_int (rne (x / ?u)) * ?u"
    using assms(2) False by (simp add: round64_def Let_def split: if_splits)
  have "0 \<le> x / ?u" using assms(1) pow2_pos [of "max (ilog2 \<bar>x\<bar> - 52) (- 1074)"] by simp
  then have "0 \<le> rne (x / ?u)" using rne_ge [of 0 "x / ?u"] by simp
  then show ?thesis using r pow2_pos [of "max (ilog2 \<bar>x\<bar> - 52) (- 1074)"] by simp
qed

section \<open>Target calories: gain against lose\<close>

lemma trunc_gap:
  fixes R :: rat
  assumes "500 \<le> R"
  shows "(if 0 \<le> R + 500 then \<lfloor>R + 500\<rfloor> else \<lceil>R + 500\<rceil>)
       - (if 0 \<le> R - 500 then \<lfloor>R - 500\<rfloor> else \<lceil>R - 500\<rceil>) = 1000"
proof -
  have "\<lfloor>R + 500\<rfloor> = \<lfloor>R\<rfloor> + 500" using floor_add_int [of R 500] by simp
  moreover have "\<lfloor>R - 500\<rfloor> = \<lfloor>R\<rfloor> - 500" using floor_diff_of_int [of R 500] by simp
  ultimately show ?thesis using assms by simp
qed

text \<open>For a positive weight the basal rate, when finite, is at least 512.\<close>

lemma RMR_ge:
  assumes w: "0 < w" and R: "RMR (Fin w) = Fin R"
  shows "512 \<le> R"
proof -
  have k: "round64 (4375 / 4) = Fin (4375 / 4)" by code_simp
  note R' = R [unfolded RMR_def]
  obtain a where a: "round64 (10 * w) = Fin a"
    using R' by (cases "round64 (10 * w)") (simp_all add: k fsub_def)
  have a0: "0 \<le> a" using round64_nonneg [OF _ a] w by simp
  obtain b where b: "round64 (a + 4375 / 4) = Fin b"
    using R' a by (cases "round64 (a + 4375 / 4)") (simp_all add: k fsub_def)
  have "2 ^ 10 \<le> a + 4375 / 4" using a0 by simp
  then have b0: "2 ^ 10 \<le> b" using b by (rule round64_ge_pow2)
  obtain c where c: "round64 (b - 150) = Fin c"
    using R' a b by (cases "round64 (b - 150)") (simp_all add: k fsub_def)
  have "2 ^ 9 \<le> b - 150" using b0 by simp
  then have c0: "2 ^ 9 \<le> c" using c by (rule round64_ge_pow2)
  have d: "round64 (c + 5) = Fin R" using R' a b c by (simp add: k fsub_def)
  have "2 ^ 9 \<le> c + 5" using c0 by simp
  then have "2 ^ 9 \<le> R" using d by (rule round64_ge_pow2)
  then show ?thesis by simp
qed

text \<open>
  C4, as stated: for every weight \<open>w > 0\<close> the targets for \<open>gain\<close> and \<open>lose\<close> differ
  by exactly 1000. It fails on floats. The weight 60.02499999999998 is the binary64
  value \<open>527985483658035 / 2^43\<close>; its basal rate is one unit in the last place below
  1549, so that adding 500 rounds up to 2049 while subtracting 500 is exact and
  truncates to 1048: the targets differ by 1001. At the weight \<open>2^70\<close> both offsets
  are lost in the rounding and the targets are equal.
\<close>

theorem compute_target_calories_gap_counterexample:
  "round64 (527985483658035 / 2 ^ 43) = Fin (527985483658035 / 2 ^ 43)
   \<and> compute_target_calories (Fin (527985483658035 / 2 ^ 43)) (ustr ''gain'') = Inr 2049
   \<and> compute_target_calories (Fin (527985483658035 / 2 ^ 43)) (ustr ''lose'') = Inr 1048
   \<and> round64 (2 ^ 70) = Fin (2 ^ 70)
   \<and> compute_target_calories (Fin (2 ^ 70)) (ustr ''gain'') = Inr 11805916207174113034240
   \<and> compute_target_calories (Fin (2 ^ 70)) (ustr ''lose'') = Inr 11805916207174113034240"
  by code_simp

text \<open>
  C4, amended: for every finite weight \<open>w > 0\<close> whose basal rate \<open>RMR\<close> is finite and
  for which rounding the two sums \<open>RMR + 500\<close> and \<open>RMR - 500\<close> to binary64 leaves
  their integer parts as they are, both targets are returned and the target for
  \<open>gain\<close> minus the target for \<open>lose\<close> is exactly 1000; the truncation of \<open>int()\<close> does
  not disturb the difference.
\<close>

theorem compute_target_calories_gap:
  assumes "0 < w"
    and "RMR (Fin w) = Fin R"
    and "fadd (Fin R) (Fin 500) = Fin a" and "\<lfloor>a\<rfloor> = \<lfloor>R + 500\<rfloor>"
    and "fadd (Fin R) (Fin (- 500)) = Fin b" and "\<lfloor>b\<rfloor> = \<lfloor>R - 500\<rfloor>"
  shows "\<exists>g l. compute_target_calories (Fin w) (ustr ''gain'') = Inr g
             \<and> compute_target_calories (Fin w) (ustr ''lose'') = Inr l
             \<and> g - l = 1000"
proof -
  have R: "512 \<le> R" using assms(1,2) by (rule RMR_ge)
  have ra: "round64 (R + 500) = Fin a" using assms(3) by (simp only: fadd.simps)
  have "R + - 500 = R - 500" by simp
  then have rb: "round64 (R - 500) = Fin b" using assms(5) by (simp only: fadd.simps)
  have "2 ^ 9 \<le> R + 500" using R by simp
  then have "2 ^ 9 \<le> a" using ra by (rule round64_ge_pow2)
  then have a0: "0 \<le> a" by simp
  have "2 ^ 3 \<le> R - 500" using R by simp
  then have "2 ^ 3 \<le> b" using rb by (rule round64_ge_pow2)
  then have b0: "0 \<le> b" by simp
  have "\<lfloor>R + 500\<rfloor> = \<lfloor>R\<rfloor> + 500" using floor_add_int [of R 500] by simp
  then have fa: "\<lfloor>a\<rfloor> = \<lfloor>R\<rfloor> + 500" by (simp only: assms(4))
  have "\<lfloor>R - 500\<rfloor> = \<lfloor>R\<rfloor> - 500" using floor_diff_of_int [of R 500] by simp
  then have fb: "\<lfloor>b\<rfloor> = \<lfloor>R\<rfloor> - 500" by (simp only: assms(6))
  have ne: "ustr ''lose'' \<noteq> ustr ''gain''" by (simp add: ustr_def)
  have "compute_target_calories (Fin w) (ustr ''gain'') = py_int (fadd (Fin R) (Fin 500))"
    by (simp add: compute_target_calories_def assms(2))
  then have g: "compute_target_calories (Fin w) (ustr ''gain'') = Inr \<lfloor>a\<rfloor>"
    using a0 by (simp only: assms(3) py_int.simps if_True)
  have "compute_target_calories (Fin w) (ustr ''lose'') = py_int (fadd (Fin R) (Fin (- 500)))"
    using ne by (simp add: compute_target_calories_def assms(2))
  then have l: "compute_target_calories (Fin w) (ustr ''lose'') = Inr \<lfloor>b\<rfloor>"
    using b0 by (simp only: assms(5) py_int.simps if_True)
  have "\<lfloor>a\<rfloor> - \<lfloor>b\<rfloor> = 1000" unfolding fa fb by simp
  with g l show ?thesis by blast
qed

text \<open>
  The weight 59.93 is the binary64 value \<open>8434397677134807 / 2^47\<close>. Adding 500 to its
  basal rate is not exact, but the rounded sum keeps the integer part 2048.
\<close>

theorem compute_target_calories_gap_witness:
  "0 < (8434397677134807 / 2 ^ 47 :: rat)
   \<and> RMR (Fin (8434397677134807 / 2 ^ 47)) = Fin (6808395901514547 / 2 ^ 42)
   \<and> fadd (Fin (6808395901514547 / 2 ^ 42)) (Fin 500) = Fin (2251854789266637 / 2 ^ 40)
   \<and> (2251854789266637 / 2 ^ 40 :: rat) \<noteq> 6808395901514547 / 2 ^ 42 + 500
   \<and> \<lfloor>2251854789266637 / 2 ^ 40 :: rat\<rfloor> = \<lfloor>6808395901514547 / 2 ^ 42 + 500 :: rat\<rfloor>
   \<and> fadd (Fin (6808395901514547 / 2 ^ 42)) (Fin (- 500)) = Fin (4609372645962547 / 2 ^ 42)
   \<and> \<lfloor>4609372645962547 / 2 ^ 42 :: rat\<rfloor> = \<lfloor>6808395901514547 / 2 ^ 42 - 500 :: rat\<rfloor>
   \<and> (\<exists>g l. compute_target_calories (Fin (8434397677134807 / 2 ^ 47)) (ustr ''gain'') = Inr g
             \<and> compute_target_calories (Fin (8434397677134807 / 2 ^ 47)) (ustr ''lose'') = Inr l
             \<and> g - l = 1000)"
proof -
  have h1: "0 < (8434397677134807 / 2 ^ 47 :: rat)" by simp
  have h2: "RMR (Fin (8434397677134807 / 2 ^ 47)) = Fin (6808395901514547 / 2 ^ 42)"
    by code_simp
  have h3: "fadd (Fin (6808395901514547 / 2 ^ 42)) (Fin 500) = Fin (2251854789266637 / 2 ^ 40)"
    by code_simp
  have n: "(2251854789266637 / 2 ^ 40 :: rat) \<noteq> 6808395901514547 / 2 ^ 42 + 500"
    by code_simp
  have h4: "\<lfloor>2251854789266637 / 2 ^ 40 :: rat\<rfloor> = \<lfloor>6808395901514547 / 2 ^ 42 + 500 :: rat\<rfloor>"
    by code_simp
  have h5: "fadd (Fin (6808395901514547 / 2 ^ 42)) (Fin (- 500)) = Fin (4609372645962547 / 2 ^ 42)"
    by code_simp
  have h6: "\<lfloor>4609372645962547 / 2 ^ 42 :: rat\<rfloor> = \<lfloor>6808395901514547 / 2 ^ 42 - 500 :: rat\<rfloor>"
    by code_simp
  show ?thesis
    by (intro conjI h1 h2 h3 n h4 h5 h6 compute_target_calories_gap [OF h1 h2 h3 h4 h5 h6])
qed

subsection \<open>Weights for which the arithmetic is exact\<close>

lemma rne_of_int: "rne (of_int n) = n"
  by (simp add: rne_def Let_def)

lemma ilog2_less:
  assumes "0 < x" and "x < 2 ^ k" and "0 < k"
  shows "ilog2 x < int k"
proof (cases "1 \<le> x")
  case True
  let ?n = "\<lfloor>x\<rfloor>"
  have n_pos: "0 < ?n" using True by simp
  from bitlen_bounds [OF n_pos] have "2 ^ nat (bitlen ?n - 1) \<le> ?n" by simp
  then have "(of_int (2 ^ nat (bitlen ?n - 1)) :: rat) \<le> of_int ?n" by (simp only: of_int_le_iff)
  also have "\<dots> \<le> x" by simp
  also have "\<dots> < 2 ^ k" by (rule assms(2))
  finally have "(2::rat) ^ nat (bitlen ?n - 1) < 2 ^ k" by simp
  then have "nat (bitlen ?n - 1) < k" by (simp add: power_strict_increasing_iff)
  then show ?thesis using True by (simp add: ilog2_def)
next
  case False
  then have "ilog2 x = - bitlen (\<lceil>1 / x\<rceil> - 1)" by (simp add: ilog2_def)
  then have "ilog2 x \<le> 0" using bitlen_nonneg [of "\<lceil>1 / x\<rceil> - 1"] by simp
  then show ?thesis using assms(3) by simp
qed

text \<open>A multiple of \<open>2^-j\<close> below \<open>2^(53-j)\<close> in magnitude is a binary64 value.\<close>

lemma round64_exact:
  assumes "j \<le> 52" and "\<bar>of_int m / 2 ^ j\<bar> < (2::rat) ^ (53 - j)"
  shows "round64 (of_int m / 2 ^ j) = Fin (of_int m / 2 ^ j)"
proof (cases "m = 0")
  case True
  then show ?thesis by (simp add: round64_def)
next
  case False
  define x :: rat where "x = of_int m / 2 ^ j"
  define p where "p = max (ilog2 \<bar>x\<bar> - 52) (- 1074)"
  define u where "u = pow2 p"
  have x0: "x \<noteq> 0" using False by (simp add: x_def)
  then have ax: "0 < \<bar>x\<bar>" by simp
  have u0: "0 < u" unfolding u_def by (rule pow2_pos)
  have "\<bar>x\<bar> < 2 ^ (53 - j)" using assms(2) by (simp only: x_def)
  with ax have e: "ilog2 \<bar>x\<bar> < int (53 - j)" by (rule ilog2_less) (use assms(1) in simp)
  then have pj: "p \<le> - int j" using assms(1) by (simp add: p_def)
  define d where "d = nat (- int j - p)"
  have d: "p + int d = - int j" using pj by (simp add: d_def)
  have "pow2 (- int j) = u * pow2 (int d)"
    using pow2_add [of p "int d"] d by (simp add: u_def)
  moreover have "pow2 (- int j) = 1 / 2 ^ j" by (simp add: pow2_def)
  ultimately have j: "1 / 2 ^ j = u * 2 ^ d" by (simp add: pow2_nat)
  have "x = of_int m * (1 / 2 ^ j)" by (simp add: x_def)
  also have "\<dots> = of_int (m * 2 ^ d) * u" unfolding j by simp
  finally have x: "x = of_int (m * 2 ^ d) * u" .
  have "x / u = of_int (m * 2 ^ d)" unfolding x using u0 by simp
  then have "rne (x / u) = m * 2 ^ d" by (simp only: rne_of_int)
  then have r: "of_int (rne (x / u)) * u = x" using x by (simp only:)
  have e': "\<not> 1024 \<le> ilog2 \<bar>x\<bar>" using e by simp
  have "round64 x = Fin x"
    unfolding round64_def Let_def p_def [symmetric] u_def [symmetric] r
    using x0 e' by (simp only: if_False)
  then show ?thesis by (simp only: x_def)
qed


text \<open>
  Weights given in multiples of \<open>1/1024\<close> kg, up to \<open>2^30\<close> kg: every operation of
  \<open>compute_target_calories\<close> is then exact, and the two targets differ by 1000.
\<close>

lemma round64_1024:
  assumes "x = of_int m / 2 ^ 10" and "\<bar>m\<bar> < 2 ^ 53"
  shows "round64 x = Fin x"
proof -
  have "\<bar>of_int m / 2 ^ 10 :: rat\<bar> = of_int \<bar>m\<bar> / 2 ^ 10" by simp
  also have "\<dots> < of_int (2 ^ 53) / 2 ^ 10"
    using assms(2) by (simp only: of_int_less_iff divide_strict_right_mono zero_less_power zero_less_numeral)
  also have "\<dots> = 2 ^ (53 - 10)" by simp
  finally have "round64 (of_int m / 2 ^ 10) = Fin (of_int m / 2 ^ 10)"
    using round64_exact [of 10 m] by simp
  then show ?thesis by (simp only: assms(1))
qed

lemma RMR_1024:
  assumes "0 < n" and "n \<le> 2 ^ 40" and "w = of_int n / 2 ^ 10"
  shows "RMR (Fin w) = Fin (10 * w + 4375 / 4 + - 150 + 5)"
proof -
  have k: "round64 (25 / 4 * 175) = Fin (4375 / 4)" by code_simp
  have c: "fneg (Fin (of_int (5 * 30))) = Fin (- 150)" by simp
  have "10 * w = of_int (10 * n) / 2 ^ 10" by (simp add: assms(3))
  then have 1: "round64 (10 * w) = Fin (10 * w)"
    by (rule round64_1024) (use assms(1,2) in simp)
  have "10 * w + 4375 / 4 = of_int (10 * n + 1120000) / 2 ^ 10"
    by (simp add: assms(3) add_divide_distrib)
  then have 2: "round64 (10 * w + 4375 / 4) = Fin (10 * w + 4375 / 4)"
    by (rule round64_1024) (use assms(1,2) in simp)
  have "10 * w + 4375 / 4 + - 150 = of_int (10 * n + 966400) / 2 ^ 10"
    by (simp add: assms(3) add_divide_distrib)
  then have 3: "round64 (10 * w + 4375 / 4 + - 150) = Fin (10 * w + 4375 / 4 + - 150)"
    by (rule round64_1024) (use assms(1,2) in simp)
  have "10 * w + 4375 / 4 + - 150 + 5 = of_int (10 * n + 971520) / 2 ^ 10"
    by (simp add: assms(3) add_divide_distrib)
  then have 4: "round64 (10 * w + 4375 / 4 + - 150 + 5) = Fin (10 * w + 4375 / 4 + - 150 + 5)"
    by (rule round64_1024) (use assms(1,2) in simp)
  show ?thesis
    unfolding RMR_def fsub_def c
    by (simp only: fmul.simps fadd.simps k 1 2 3 4)
qed

lemma dyadic_weight_gap:
  assumes "0 < n" and "n \<le> 2 ^ 40"
  shows "\<exists>g l. compute_target_calories (Fin (of_int n / 2 ^ 10)) (ustr ''gain'') = Inr g
             \<and> compute_target_calories (Fin (of_int n / 2 ^ 10)) (ustr ''lose'') = Inr l
             \<and> g - l = 1000"
proof -
  define w :: rat where "w = of_int n / 2 ^ 10"
  define R :: rat where "R = 10 * w + 4375 / 4 + - 150 + 5"
  have rmr: "RMR (Fin w) = Fin R"
    unfolding R_def using assms w_def by (rule RMR_1024)
  have "R + 500 = of_int (10 * n + 1483520) / 2 ^ 10"
    by (simp add: R_def w_def add_divide_distrib)
  then have up: "round64 (R + 500) = Fin (R + 500)"
    by (rule round64_1024) (use assms in simp)
  have "R - 500 = of_int (10 * n + 459520) / 2 ^ 10"
    by (simp add: R_def w_def add_divide_distrib)
  then have down: "round64 (R - 500) = Fin (R - 500)"
    by (rule round64_1024) (use assms in simp)
  have "0 < w" using assms(1) by (simp add: w_def)
  then have R: "500 \<le> R" by (simp add: R_def)
  have ne: "ustr ''lose'' \<noteq> ustr ''gain''" by (simp add: ustr_def)
  have g: "compute_target_calories (Fin w) (ustr ''gain'') = py_int (Fin (R + 500))"
    by (simp add: compute_target_calories_def rmr up)
  have l: "compute_target_calories (Fin w) (ustr ''lose'') = py_int (Fin (R - 500))"
    using ne by (simp add: compute_target_calories_def rmr down)
  show ?thesis
    unfolding w_def [symmetric] g l using trunc_gap [OF R] by simp
qed

section \<open>The catalog handler\<close>

subsection \<open>What a successful request went through\<close>

lemma render_fields:
  assumes "render db i = Inr x"
  shows "out_price_usd x = price_usd i" and "out_calories x = calories i"
    and "out_restaurant_id x = restaurant_id i"
  using assms by (auto simp: render_def split: option.splits)

lemma render_all_Inr:
  assumes "render_all db items = Inr res"
  shows "length res = length items" and "\<forall>x \<in> set res. \<exists>i \<in> set items. render db i = Inr x"
  using assms
  by (induction items arbitrary: res) (auto split: sum.splits)

lemma run_query_Inr:
  assumes "run_query pf db rid b target = Inr items"
  shows "length items \<le> 10"
    and "\<forall>i \<in> set items. in_bracket pf b target i"
    and "truthy rid \<Longrightarrow>
           \<exists>same. bind_restaurant_id pf rid = Inr same \<and> (\<forall>i \<in> set items. restaurant_is same i)"
  using assms
  by (auto simp: run_query_def split: if_splits sum.splits dest: in_set_takeD)

lemma app_recommend_Inr:
  assumes "app_recommend pf payload db = (Inr res, s)"
  shows "\<exists>t w b g rid target items.
           parse_payload pf payload = Inr (t, w, b, g, rid)
         \<and> (g = ustr ''gain'' \<or> g = ustr ''lose'')
         \<and> compute_target_calories w g = Inr target
         \<and> run_query pf db rid b target = Inr items
         \<and> render_all db items = Inr res \<and> s = Closed"
  using assms
  by (auto simp: app_recommend_def respond_def split: if_splits sum.splits prod.splits)

lemma in_bracket_iff:
  "in_bracket pf b target i \<longleftrightarrow>
     (\<exists>p. price_usd i = Some p \<and> price_within pf p b)
     \<and> (\<exists>c. calories i = Some c \<and> \<bar>c - target\<bar> \<le> 200)"
  by (auto simp: in_bracket_def split: option.splits)

lemma price_within_number: "b \<noteq> NaN \<Longrightarrow> price_within pf p b = float_le p b"
  by (simp add: price_within_def)

text \<open>A request whose fields parse is a dict that is not empty.\<close>

lemma parse_payload_truthy:
  assumes "parse_payload pf payload = Inr r"
  shows "truthy payload"
proof (cases payload)
  case (JObj kvs)
  show ?thesis
  proof (cases kvs)
    case Nil
    with JObj assms show ?thesis by (simp add: parse_payload_def)
  next
    case (Cons a list)
    with JObj show ?thesis by simp
  qed
qed (use assms in \<open>simp_all add: parse_payload_def\<close>)

text \<open>
  C1. For a catalog request whose fields parse to a weight, a goal and a budget that
  is no NaN (a number or an infinity), every item of the array the request returns
  has a price within the budget and calories within 200 of
  \<open>compute_target_calories(weight_kg, goal)\<close>; when \<open>restaurant_id\<close> is truthy the
  item's restaurant is the one the engine matched with it, and is that very number
  when \<open>restaurant_id\<close> is an integer.
\<close>

theorem recommend_items_in_budget_and_bracket:
  assumes "app_recommend pf payload db = (Inr res, s)"
    and "parse_payload pf payload = Inr (tall_cm, w, budget_usd, g, rid)"
    and "budget_usd \<noteq> NaN"
  shows "(g = ustr ''gain'' \<or> g = ustr ''lose'')
       \<and> (\<exists>target_cal.
             compute_target_calories w g = Inr target_cal
           \<and> (\<forall>x \<in> set res.
                 (\<exists>p. out_price_usd x = Some p \<and> float_le p budget_usd)
               \<and> (\<exists>c. out_calories x = Some c \<and> \<bar>c - target_cal\<bar> \<le> 200)
               \<and> (truthy rid \<longrightarrow>
                     (\<exists>same n. bind_restaurant_id pf rid = Inr same
                               \<and> out_restaurant_id x = Some n \<and> same n))
               \<and> (\<forall>k. rid = JInt k \<and> k \<noteq> 0 \<longrightarrow> out_restaurant_id x = Some k)))"
proof -
  from app_recommend_Inr [OF assms(1)] assms(2) obtain target items where
    g: "g = ustr ''gain'' \<or> g = ustr ''lose''"
    and target: "compute_target_calories w g = Inr target"
    and query: "run_query pf db rid budget_usd target = Inr items"
    and res: "render_all db items = Inr res"
    by auto
  have "\<forall>x \<in> set res.
               (\<exists>p. out_price_usd x = Some p \<and> float_le p budget_usd)
             \<and> (\<exists>c. out_calories x = Some c \<and> \<bar>c - target\<bar> \<le> 200)
             \<and> (truthy rid \<longrightarrow>
                   (\<exists>same n. bind_restaurant_id pf rid = Inr same
                             \<and> out_restaurant_id x = Some n \<and> same n))
             \<and> (\<forall>k. rid = JInt k \<and> k \<noteq> 0 \<longrightarrow> out_restaurant_id x = Some k)"
  proof
    fix x assume "x \<in> set res"
    with render_all_Inr(2) [OF res] obtain i where i: "i \<in> set items" and x: "render db i = Inr x"
      by blast
    from run_query_Inr(2) [OF query] i have "in_bracket pf budget_usd target i" by blast
    then have br: "(\<exists>p. price_usd i = Some p \<and> float_le p budget_usd)
                 \<and> (\<exists>c. calories i = Some c \<and> \<bar>c - target\<bar> \<le> 200)"
      using assms(3) by (simp add: in_bracket_iff price_within_number)
    have rest: "\<exists>same n. bind_restaurant_id pf rid = Inr same
                  \<and> out_restaurant_id x = Some n \<and> same n" if "truthy rid"
    proof -
      from run_query_Inr(3) [OF query that] i obtain same where
        "bind_restaurant_id pf rid = Inr same" and "restaurant_is same i" by blast
      then show ?thesis
        using render_fields(3) [OF x] by (auto simp: restaurant_is_def split: option.splits)
    qed
    have int: "out_restaurant_id x = Some k" if "rid = JInt k" and "k \<noteq> 0" for k
      using rest that by auto
    from br rest int show "(\<exists>p. out_price_usd x = Some p \<and> float_le p budget_usd)
             \<and> (\<exists>c. out_calories x = Some c \<and> \<bar>c - target\<bar> \<le> 200)
             \<and> (truthy rid \<longrightarrow>
                   (\<exists>same n. bind_restaurant_id pf rid = Inr same
                             \<and> out_restaurant_id x = Some n \<and> same n))
             \<and> (\<forall>k. rid = JInt k \<and> k \<noteq> 0 \<longrightarrow> out_restaurant_id x = Some k)"
      using render_fields(1,2) [OF x] by simp
  qed
  with g target show ?thesis by blast
qed

text \<open>
  The request for restaurant 1 on the catalog of two restaurants: the wrap of
  restaurant 2 fits budget and bracket as well, and only the salad is returned.
\<close>

theorem recommend_items_in_budget_and_bracket_witness:
  "app_recommend example_platform
     (JObj (example_fields @ [(ustr ''restaurant_id'', JInt 1)])) example_db
     = (Inr [salad_json], Closed)
   \<and> parse_payload example_platform
       (JObj (example_fields @ [(ustr ''restaurant_id'', JInt 1)]))
       = Inr (Fin 175, Fin 70, Fin 12, ustr ''lose'', JInt 1)
   \<and> Fin 12 \<noteq> NaN
   \<and> (ustr ''lose'' = ustr ''gain'' \<or> ustr ''lose'' = ustr ''lose'')
   \<and> (\<exists>target_cal.
         compute_target_calories (Fin 70) (ustr ''lose'') = Inr target_cal
       \<and> (\<forall>x \<in> set [salad_json].
             (\<exists>p. out_price_usd x = Some p \<and> float_le p (Fin 12))
           \<and> (\<exists>c. out_calories x = Some c \<and> \<bar>c - target_cal\<bar> \<le> 200)
           \<and> (truthy (JInt 1) \<longrightarrow>
                 (\<exists>same n. bind_restaurant_id example_platform (JInt 1) = Inr same
                           \<and> out_restaurant_id x = Some n \<and> same n))
           \<and> (\<forall>k. JInt 1 = JInt k \<and> k \<noteq> 0 \<longrightarrow> out_restaurant_id x = Some k)))"
proof -
  have h1: "app_recommend example_platform
     (JObj (example_fields @ [(ustr ''restaurant_id'', JInt 1)])) example_db
     = (Inr [salad_json], Closed)" by code_simp
  have h2: "parse_payload example_platform
       (JObj (example_fields @ [(ustr ''restaurant_id'', JInt 1)]))
       = Inr (Fin 175, Fin 70, Fin 12, ustr ''lose'', JInt 1)" by code_simp
  have h3: "Fin 12 \<noteq> NaN" by simp
  note t = recommend_items_in_budget_and_bracket [OF h1 h2 h3]
  show ?thesis by (intro conjI h1 h2 h3 conjunct1 [OF t] conjunct2 [OF t])
qed

text \<open>
  Why the budget must be no NaN: \<open>float("nan")\<close> passes line 94, and whether a price is
  \<open><= NaN\<close> is the engine's decision. With an engine that holds no price to be, the
  request returns nothing; with one that holds every price to be, it returns both
  dishes, whose prices are not \<open><=\<close> the budget as Python compares floats.
\<close>

lemma nan_budget_depends_on_engine:
  "app_recommend example_platform
     (JObj [(ustr ''tall_cm'', JInt 175), (ustr ''weight_kg'', JInt 70),
            (ustr ''budget_usd'', JFloat NaN), (ustr ''goal'', JStr (ustr ''lose''))]) example_db
     = (Inr [], Closed)
   \<and> app_recommend nan_above_platform
     (JObj [(ustr ''tall_cm'', JInt 175), (ustr ''weight_kg'', JInt 70),
            (ustr ''budget_usd'', JFloat NaN), (ustr ''goal'', JStr (ustr ''lose''))]) example_db
     = (Inr [salad_json, wrap_json], Closed)
   \<and> \<not> float_le (Fin 8) NaN"
  by code_simp

subsection \<open>The sizes of the results\<close>

lemma length_fetch_affordable_items: "length (fetch_affordable_items pp conn budget) \<le> 30"
  by (simp add: fetch_affordable_items_def Let_def)

text \<open>
  C8. The catalog \<open>/recommend\<close> endpoint returns at most 10 menu items, and
  \<open>fetch_affordable_items\<close> returns at most 30 items, whatever the request, the
  tables and the order of the rows.
\<close>

theorem result_sizes_bounded:
  "(\<forall>res s. app_recommend pf payload db = (Inr res, s) \<longrightarrow> length res \<le> 10)
   \<and> length (fetch_affordable_items pp conn budget) \<le> 30"
proof (intro conjI allI impI)
  fix res s assume "app_recommend pf payload db = (Inr res, s)"
  from app_recommend_Inr [OF this] obtain t w b g rid target items where
    "run_query pf db rid b target = Inr items" and "render_all db items = Inr res" by blast
  then show "length res \<le> 10"
    using run_query_Inr(1) [of pf db rid b target items] render_all_Inr(1) [of db items res]
    by simp
next
  show "length (fetch_affordable_items pp conn budget) \<le> 30"
    by (rule length_fetch_affordable_items)
qed

text \<open>Twelve dishes fit the request and ten are returned; 31 rows are affordable.\<close>

theorem result_sizes_bounded_witness:
  "app_recommend example_platform (JObj example_fields) salads_db
     = (Inr (replicate 10 salad_json), Closed)
   \<and> length (replicate 10 salad_json) \<le> 10
   \<and> length (affordable_rows large_plan_db (Fin 50)) = 31
   \<and> length (fetch_affordable_items (example_plan_platform echo) large_plan_db (Fin 50)) \<le> 30"
proof -
  have h: "app_recommend example_platform (JObj example_fields) salads_db
             = (Inr (replicate 10 salad_json), Closed)" by code_simp
  have r: "length (affordable_rows large_plan_db (Fin 50)) = 31" by code_simp
  from result_sizes_bounded [of example_platform "JObj example_fields" salads_db
      "example_plan_platform echo" large_plan_db "Fin 50"] h r
  show ?thesis by blast
qed

subsection \<open>A falsy restaurant_id\<close>

lemma app_recommend_falsy:
  assumes "parse_payload pf payload = Inr (t, w, b, g, rid)" and "\<not> truthy rid"
    and "g = ustr ''gain'' \<or> g = ustr ''lose''" and "compute_target_calories w g = Inr target"
  shows "app_recommend pf payload db
           = respond db (take 10 (filter (in_bracket pf b target) (menu_items db)))"
  using assms parse_payload_truthy [OF assms(1)]
  by (auto simp: app_recommend_def run_query_def)

lemma map_of_filter_key:
  "map_of (filter (\<lambda>kv. fst kv \<noteq> k0) kvs) k = (if k = k0 then None else map_of kvs k)"
  by (induction kvs) auto

lemma parse_payload_without_restaurant_id:
  assumes "parse_payload pf (JObj kvs) = Inr (t, w, b, g, rid)"
  shows "parse_payload pf (JObj (filter (\<lambda>kv. fst kv \<noteq> ustr ''restaurant_id'') kvs))
           = Inr (t, w, b, g, JNull)"
proof -
  have ne: "ustr ''tall_cm'' \<noteq> ustr ''restaurant_id''" "ustr ''weight_kg'' \<noteq> ustr ''restaurant_id''"
    "ustr ''budget_usd'' \<noteq> ustr ''restaurant_id''" "ustr ''goal'' \<noteq> ustr ''restaurant_id''"
    by (simp_all add: ustr_def)
  show ?thesis
    using assms ne
    by (simp add: parse_payload_def map_of_filter_key split: sum.splits)
qed

text \<open>
  C10. When the fields of a catalog request parse, the goal is valid, the target is
  computed and \<open>restaurant_id\<close> is absent, null, 0 or any other falsy value, the
  handler answers from the rows of all restaurants that fit budget and bracket, the
  first ten of them, and answers as it does for the same request without the field.
\<close>

theorem falsy_restaurant_id_unrestricted:
  assumes "parse_payload pf (JObj kvs) = Inr (t, w, b, g, rid)" and "\<not> truthy rid"
    and "g = ustr ''gain'' \<or> g = ustr ''lose''" and "compute_target_calories w g = Inr target"
  shows "app_recommend pf (JObj kvs) db
           = respond db (take 10 (filter (in_bracket pf b target) (menu_items db)))
       \<and> app_recommend pf (JObj kvs) db
           = app_recommend pf (JObj (filter (\<lambda>kv. fst kv \<noteq> ustr ''restaurant_id'') kvs)) db"
proof -
  have 1: "app_recommend pf (JObj kvs) db
           = respond db (take 10 (filter (in_bracket pf b target) (menu_items db)))"
    using assms by (rule app_recommend_falsy)
  have 2: "app_recommend pf (JObj (filter (\<lambda>kv. fst kv \<noteq> ustr ''restaurant_id'') kvs)) db
           = respond db (take 10 (filter (in_bracket pf b target) (menu_items db)))"
    using parse_payload_without_restaurant_id [OF assms(1)] _ assms(3,4)
    by (rule app_recommend_falsy) simp
  from 1 2 show ?thesis by simp
qed

text \<open>With \<open>restaurant_id = 0\<close> the dishes of both restaurants are returned.\<close>

theorem falsy_restaurant_id_unrestricted_witness:
  "parse_payload example_platform (JObj (example_fields @ [(ustr ''restaurant_id'', JInt 0)]))
     = Inr (Fin 175, Fin 70, Fin 12, ustr ''lose'', JInt 0)
   \<and> \<not> truthy (JInt 0)
   \<and> compute_target_calories (Fin 70) (ustr ''lose'') = Inr 1148
   \<and> app_recommend example_platform (JObj (example_fields @ [(ustr ''restaurant_id'', JInt 0)])) example_db
       = respond example_db (take 10 (filter (in_bracket example_platform (Fin 12) 1148) (menu_items example_db)))
   \<and> app_recommend example_platform (JObj (example_fields @ [(ustr ''restaurant_id'', JInt 0)])) example_db
       = app_recommend example_platform
           (JObj (filter (\<lambda>kv. fst kv \<noteq> ustr ''restaurant_id'')
                    (example_fields @ [(ustr ''restaurant_id'', JInt 0)]))) example_db
   \<and> respond example_db (take 10 (filter (in_bracket example_platform (Fin 12) 1148) (menu_items example_db)))
       = (Inr [salad_json, wrap_json], Closed)"
proof -
  have h1: "parse_payload example_platform (JObj (example_fields @ [(ustr ''restaurant_id'', JInt 0)]))
     = Inr (Fin 175, Fin 70, Fin 12, ustr ''lose'', JInt 0)" by code_simp
  have h2: "\<not> truthy (JInt 0)" by simp
  have h3: "ustr ''lose'' = ustr ''gain'' \<or> ustr ''lose'' = ustr ''lose''" by simp
  have h4: "compute_target_calories (Fin 70) (ustr ''lose'') = Inr 1148" by code_simp
  have r: "respond example_db (take 10 (filter (in_bracket example_platform (Fin 12) 1148) (menu_items example_db)))
       = (Inr [salad_json, wrap_json], Closed)" by code_simp
  note t = falsy_restaurant_id_unrestricted [OF h1 h2 h3 h4, of example_db]
  show ?thesis by (intro conjI h1 h2 h4 r conjunct1 [OF t] conjunct2 [OF t])
qed

subsection \<open>Requests that are refused\<close>

lemma not_bad_number:
  assumes "\<not> bad_number pf payload field"
  shows "\<exists>v x. dict_get payload (ustr field) = Inr v \<and> py_float pf v = Inr x"
  using assms by (auto simp: bad_number_def split: sum.splits)

lemma dict_get_Inr_JObj:
  assumes "dict_get payload k = Inr v"
  shows "\<exists>kvs. payload = JObj kvs"
  using assms by (cases payload) simp_all

lemma names_goal: "names_field goal_message ''goal''"
  by (simp add: names_field_def goal_message_def quoted_def lower_cp_def ustr_def)

text \<open>
  C9. When the three numeric fields of a catalog request are usable and the goal is
  a string whose lower case is neither \<open>gain\<close> nor \<open>lose\<close>, the handler aborts with
  status 400, before a session is made, and the message, \<open>Goal must be 'gain' or 'lose'\<close>,
  names the goal.
\<close>

theorem goal_outside_enum_rejected:
  assumes "\<not> bad_number pf payload ''tall_cm''" and "\<not> bad_number pf payload ''weight_kg''"
    and "\<not> bad_number pf payload ''budget_usd''"
    and "dict_get payload (ustr ''goal'') = Inr (JStr g)"
    and "map lower_cp g \<noteq> ustr ''gain''" and "map lower_cp g \<noteq> ustr ''lose''"
  shows "app_recommend pf payload db = (Inl (Abort 400 goal_message), Unopened)
       \<and> names_field goal_message ''goal''"
proof -
  from not_bad_number [OF assms(1)] obtain v1 x1 where
    1: "dict_get payload (ustr ''tall_cm'') = Inr v1" "py_float pf v1 = Inr x1" by blast
  from not_bad_number [OF assms(2)] obtain v2 x2 where
    2: "dict_get payload (ustr ''weight_kg'') = Inr v2" "py_float pf v2 = Inr x2" by blast
  from not_bad_number [OF assms(3)] obtain v3 x3 where
    3: "dict_get payload (ustr ''budget_usd'') = Inr v3" "py_float pf v3 = Inr x3" by blast
  from dict_get_Inr_JObj [OF 1(1)] obtain kvs where kvs: "payload = JObj kvs" by blast
  obtain rid where rid: "dict_get payload (ustr ''restaurant_id'') = Inr rid"
    using kvs by simp
  have parse: "parse_payload pf payload = Inr (x1, x2, x3, map lower_cp g, rid)"
    using 1 2 3 assms(4) rid by (simp add: parse_payload_def)
  have "truthy payload" using parse by (rule parse_payload_truthy)
  then have "app_recommend pf payload db = (Inl (Abort 400 goal_message), Unopened)"
    using parse assms(5,6) by (simp add: app_recommend_def)
  then show ?thesis using names_goal by simp
qed

theorem goal_outside_enum_rejected_witness:
  "\<not> bad_number example_platform (JObj [(ustr ''tall_cm'', JInt 175), (ustr ''weight_kg'', JInt 70),
        (ustr ''budget_usd'', JInt 12), (ustr ''goal'', JStr (ustr ''Maybe''))]) ''tall_cm''
   \<and> \<not> bad_number example_platform (JObj [(ustr ''tall_cm'', JInt 175), (ustr ''weight_kg'', JInt 70),
        (ustr ''budget_usd'', JInt 12), (ustr ''goal'', JStr (ustr ''Maybe''))]) ''weight_kg''
   \<and> \<not> bad_number example_platform (JObj [(ustr ''tall_cm'', JInt 175), (ustr ''weight_kg'', JInt 70),
        (ustr ''budget_usd'', JInt 12), (ustr ''goal'', JStr (ustr ''Maybe''))]) ''budget_usd''
   \<and> map lower_cp (ustr ''Maybe'') = ustr ''maybe''
   \<and> app_recommend example_platform (JObj [(ustr ''tall_cm'', JInt 175), (ustr ''weight_kg'', JInt 70),
        (ustr ''budget_usd'', JInt 12), (ustr ''goal'', JStr (ustr ''Maybe''))]) example_db
       = (Inl (Abort 400 goal_message), Unopened)
   \<and> names_field goal_message ''goal''"
proof -
  let ?p = "JObj [(ustr ''tall_cm'', JInt 175), (ustr ''weight_kg'', JInt 70),
        (ustr ''budget_usd'', JInt 12), (ustr ''goal'', JStr (ustr ''Maybe''))]"
  have h1: "\<not> bad_number example_platform ?p ''tall_cm''" by code_simp
  have h2: "\<not> bad_number example_platform ?p ''weight_kg''" by code_simp
  have h3: "\<not> bad_number example_platform ?p ''budget_usd''" by code_simp
  have h4: "dict_get ?p (ustr ''goal'') = Inr (JStr (ustr ''Maybe''))" by (simp add: ustr_def)
  have l: "map lower_cp (ustr ''Maybe'') = ustr ''maybe''" by (simp add: lower_cp_def ustr_def)
  have h5: "map lower_cp (ustr ''Maybe'') \<noteq> ustr ''gain''" by (simp add: lower_cp_def ustr_def)
  have h6: "map lower_cp (ustr ''Maybe'') \<noteq> ustr ''lose''" by (simp add: lower_cp_def ustr_def)
  note t = goal_outside_enum_rejected [OF h1 h2 h3 h4 h5 h6, of example_db]
  show ?thesis by (intro conjI h1 h2 h3 l conjunct1 [OF t] conjunct2 [OF t])
qed

lemma parse_payload_fields:
  assumes "parse_payload pf payload = Inr (t, w, b, g, rid)"
  shows "\<not> bad_number pf payload ''tall_cm''" and "\<not> bad_number pf payload ''weight_kg''"
    and "\<not> bad_number pf payload ''budget_usd''"
    and "bad_goal payload \<longleftrightarrow> g \<noteq> ustr ''gain'' \<and> g \<noteq> ustr ''lose''"
  using assms
  by (auto simp: parse_payload_def bad_number_def bad_goal_def split: sum.splits)

text \<open>
  C6, as stated: a catalog request with a required field missing, not numeric or
  outside the enumeration fails with a 400 error whose message names the field. The
  message does not: for a request without \<open>tall_cm\<close> it is \<open>Invalid payload: \<close>
  followed by the text of the \<open>TypeError\<close> of \<open>float(None)\<close>, in which \<open>tall_cm\<close> does not
  occur.
\<close>

theorem missing_field_not_named_counterexample:
  "bad_number example_platform
     (JObj [(ustr ''weight_kg'', JInt 70), (ustr ''budget_usd'', JInt 12),
            (ustr ''goal'', JStr (ustr ''lose''))]) ''tall_cm''
   \<and> app_recommend example_platform
       (JObj [(ustr ''weight_kg'', JInt 70), (ustr ''budget_usd'', JInt 12),
              (ustr ''goal'', JStr (ustr ''lose''))]) example_db
       = (Inl (Abort 400
                (ustr ''Invalid payload: float() argument must be a string or a real number, not ''
                 @ quoted (ustr ''NoneType''))), Unopened)
   \<and> \<not> names_field
          (ustr ''Invalid payload: float() argument must be a string or a real number, not ''
           @ quoted (ustr ''NoneType'')) ''tall_cm''"
  by code_simp

text \<open>
  C6, amended: a catalog request in which \<open>tall_cm\<close>, \<open>weight_kg\<close> or \<open>budget_usd\<close> is
  missing or refused by \<open>float()\<close>, or the goal is missing, no string or outside the
  enumeration, fails with a 400 error before a session is made. The message is
  \<open>Missing JSON payload\<close> for a falsy body, \<open>Invalid payload: \<close> followed by the text of
  the first exception of the \<open>try\<close> block when there is one, and
  \<open>Goal must be 'gain' or 'lose'\<close> otherwise.
\<close>

theorem unusable_field_rejected:
  assumes "bad_number pf payload ''tall_cm'' \<or> bad_number pf payload ''weight_kg''
         \<or> bad_number pf payload ''budget_usd'' \<or> bad_goal payload"
  shows "app_recommend pf payload db =
           (Inl (Abort 400
                  (if \<not> truthy payload then ustr ''Missing JSON payload''
                   else case parse_payload pf payload of
                          Inl e \<Rightarrow> ustr ''Invalid payload: '' @ exc_text e
                        | Inr parsed \<Rightarrow> goal_message)),
            Unopened)"
proof (cases "parse_payload pf payload")
  case (Inl e)
  then show ?thesis by (simp add: app_recommend_def)
next
  case (Inr parsed)
  obtain t w b g rid where parsed: "parsed = (t, w, b, g, rid)" by (cases parsed)
  from parse_payload_fields [OF Inr [unfolded parsed]] assms
  have "g \<noteq> ustr ''gain'' \<and> g \<noteq> ustr ''lose''" by blast
  then show ?thesis using Inr parsed by (simp add: app_recommend_def)
qed

text \<open>A weight that is no number: the message carries the text of the parser.\<close>

theorem unusable_field_rejected_witness:
  "bad_number example_platform
     (JObj [(ustr ''tall_cm'', JInt 175), (ustr ''weight_kg'', JStr (ustr ''heavy'')),
            (ustr ''budget_usd'', JInt 12), (ustr ''goal'', JStr (ustr ''lose''))]) ''weight_kg''
   \<and> app_recommend example_platform
       (JObj [(ustr ''tall_cm'', JInt 175), (ustr ''weight_kg'', JStr (ustr ''heavy'')),
              (ustr ''budget_usd'', JInt 12), (ustr ''goal'', JStr (ustr ''lose''))]) example_db
       = (Inl (Abort 400 (ustr ''Invalid payload: could not convert string to float'')), Unopened)"
proof -
  let ?p = "JObj [(ustr ''tall_cm'', JInt 175), (ustr ''weight_kg'', JStr (ustr ''heavy'')),
            (ustr ''budget_usd'', JInt 12), (ustr ''goal'', JStr (ustr ''lose''))]"
  have h: "bad_number example_platform ?p ''weight_kg''" by code_simp
  then have h': "bad_number example_platform ?p ''tall_cm'' \<or> bad_number example_platform ?p ''weight_kg''
         \<or> bad_number example_platform ?p ''budget_usd'' \<or> bad_goal ?p" by blast
  have m: "(if \<not> truthy ?p then ustr ''Missing JSON payload''
            else case parse_payload example_platform ?p of
                   Inl e \<Rightarrow> ustr ''Invalid payload: '' @ exc_text e
                 | Inr parsed \<Rightarrow> goal_message)
           = ustr ''Invalid payload: could not convert string to float''" by code_simp
  from unusable_field_rejected [OF h', of example_db] have
    "app_recommend example_platform ?p example_db
       = (Inl (Abort 400 (ustr ''Invalid payload: could not convert string to float'')), Unopened)"
    unfolding m .
  with h show ?thesis by (intro conjI)
qed

subsection \<open>The session of a request\<close>

text \<open>
  \<open>recommend\<close> of \<open>app.py\<close> leaves its session unmade, closed, or, when an exception
  is raised after line 107, in use; \<open>get_restaurants\<close> closes its session, and the
  \<open>finally\<close> clause of \<open>get_db\<close> closes the connection of the plan service.
\<close>

lemma app_recommend_session:
  "snd (app_recommend pf payload db) = Unopened \<or> snd (app_recommend pf payload db) = Closed
   \<or> (\<exists>e. app_recommend pf payload db = (Inl (Uncaught e), Active))"
  by (auto simp: app_recommend_def respond_def split: sum.splits prod.splits)

lemma get_restaurants_closes: "snd (get_restaurants db) = Closed"
  by (simp add: get_restaurants_def Let_def)

lemma serve_recommend_closes: "snd (serve_recommend pp req db) = Closed"
  by (simp add: serve_recommend_def get_db_def Let_def)

text \<open>
  C5 asks that the session acquired for a request be closed on every exit path, an
  exception included. \<open>recommend\<close> of \<open>app.py\<close> calls \<open>session.close()\<close> on the returning
  path only. On the catalog with a dish that has no restaurant, the request for a
  loss of weight selects that dish, \<open>i.restaurant.name\<close> raises \<open>AttributeError\<close> on
  \<open>None\<close>, and the handler is left with its session in use.
\<close>

theorem session_left_open:
  "app_recommend example_platform (JObj example_fields) orphan_db
     = (Inl (Uncaught (AttributeError (quoted (ustr ''NoneType'')
                         @ ustr '' object has no attribute '' @ quoted (ustr ''name'')))), Active)"
  by code_simp

section \<open>The plan handler\<close>

text \<open>
  C7. When \<open>fetch_affordable_items\<close> returns no item, the plan endpoint raises
  \<open>HTTPException(404)\<close> and has posted no prompt to the inference service.
\<close>

theorem no_affordable_items_404:
  assumes "fetch_affordable_items pp db (daily_budget_egp (profile req)) = []"
  shows "main_app_recommend pp req db
           = (Inl (HTTPException 404 (ustr ''No menu items within budget'')), [])"
  using assms by (simp add: main_app_recommend_def)

text \<open>The only dish costs 20 EGP and the budget is 10.\<close>

theorem no_affordable_items_404_witness:
  "fetch_affordable_items (example_plan_platform echo) example_plan_db
      (daily_budget_egp (profile (example_request (Fin 10)))) = []
   \<and> main_app_recommend (example_plan_platform echo) (example_request (Fin 10)) example_plan_db
       = (Inl (HTTPException 404 (ustr ''No menu items within budget'')), [])"
proof -
  have h: "fetch_affordable_items (example_plan_platform echo) example_plan_db
      (daily_budget_egp (profile (example_request (Fin 10)))) = []" by code_simp
  from no_affordable_items_404 [OF h] h show ?thesis by (intro conjI)
qed

lemma call_hf_failure:
  assumes "hf_endpoint pp prompt = Response status_code body" and "\<not> is_success status_code"
  shows "call_hf pp prompt posted
           = (Inl (if status_code = 429 then HTTPException 429 quota_message
                   else HTTPStatusError status_code), posted @ [prompt])"
  using assms by (simp add: call_hf_def Let_def)

lemma main_app_recommend_failure:
  assumes "fetch_affordable_items pp db (daily_budget_egp (profile req)) = items"
    and "items \<noteq> []"
    and "hf_endpoint pp (build_prompt pp (profile req) items) = Response status_code body"
    and "\<not> is_success status_code"
  shows "main_app_recommend pp req db
           = (Inl (if status_code = 429 then HTTPException 429 quota_message
                   else HTTPStatusError status_code),
              [build_prompt pp (profile req) items])"
  using assms(1,2) call_hf_failure [OF assms(3,4), of "[]"]
  by (simp add: main_app_recommend_def Let_def)

lemma example_items:
  "fetch_affordable_items (example_plan_platform a) example_plan_db
     (daily_budget_egp (profile (example_request (Fin 50)))) = [koshari_item]"
  by code_simp

text \<open>
  C3, as stated: a 429 of the inference service becomes a distinct 429 for the caller,
  and every other response that is no success is surfaced to the caller carrying the
  status of the service. The second half fails. For a 503 of the service
  \<open>raise_for_status\<close> raises the \<open>HTTPStatusError\<close> of httpx, which does carry the 503, but
  nothing catches it: the caller of the endpoint receives status 500 and a body
  without the 503.
\<close>

theorem original_status_not_surfaced_counterexample:
  "hf_endpoint (example_plan_platform down)
     (build_prompt (example_plan_platform down) (profile (example_request (Fin 50)))
        [koshari_item])
     = Response 503 (Inl [])
   \<and> main_app_recommend (example_plan_platform down) (example_request (Fin 50)) example_plan_db
     = (Inl (HTTPStatusError 503),
        [build_prompt (example_plan_platform down) (profile (example_request (Fin 50)))
           [koshari_item]])
   \<and> http_response
        (fst (main_app_recommend (example_plan_platform down) (example_request (Fin 50))
                example_plan_db))
     = (500, InternalServerError)"
proof -
  have ne: "[koshari_item] \<noteq> []" by simp
  have r: "hf_endpoint (example_plan_platform down)
              (build_prompt (example_plan_platform down) (profile (example_request (Fin 50)))
                 [koshari_item])
            = Response 503 (Inl [])" by (simp add: example_plan_platform_def down_def)
  have s: "\<not> is_success 503" by (simp add: is_success_def)
  have m: "main_app_recommend (example_plan_platform down) (example_request (Fin 50)) example_plan_db
     = (Inl (HTTPStatusError 503),
        [build_prompt (example_plan_platform down) (profile (example_request (Fin 50)))
           [koshari_item]])"
    using main_app_recommend_failure [OF example_items ne r s] by simp
  have h: "http_response
        (fst (main_app_recommend (example_plan_platform down) (example_request (Fin 50))
                example_plan_db))
     = (500, InternalServerError)" unfolding m by simp
  show ?thesis by (intro conjI r m h)
qed

text \<open>
  C3, amended: when the inference service answers the prompt with a status that is no
  success, the prompt has been posted exactly once and nothing is retried. If the
  status is 429 the handler raises \<open>HTTPException(429)\<close> with the quota message and the
  caller receives status 429 with that detail. For every other status the handler
  ends with the \<open>HTTPStatusError\<close> that \<open>raise_for_status\<close> raises, which carries the
  status of the service, and the caller receives a generic status 500 that does not
  carry it.
\<close>

theorem upstream_failure_translated_once:
  assumes "fetch_affordable_items pp db (daily_budget_egp (profile req)) = items"
    and "items \<noteq> []"
    and "hf_endpoint pp (build_prompt pp (profile req) items) = Response status_code body"
    and "\<not> is_success status_code"
  shows "main_app_recommend pp req db
           = (Inl (if status_code = 429 then HTTPException 429 quota_message
                   else HTTPStatusError status_code),
              [build_prompt pp (profile req) items])
       \<and> http_response (fst (main_app_recommend pp req db))
           = (if status_code = 429 then (429, Detail quota_message)
              else (500, InternalServerError))"
proof -
  note m = main_app_recommend_failure [OF assms]
  have "http_response (fst (main_app_recommend pp req db))
           = (if status_code = 429 then (429, Detail quota_message)
              else (500, InternalServerError))"
    unfolding m by simp
  with m show ?thesis by (intro conjI)
qed

theorem upstream_failure_translated_once_witness:
  "main_app_recommend (example_plan_platform busy) (example_request (Fin 50)) example_plan_db
     = (Inl (HTTPException 429 quota_message),
        [build_prompt (example_plan_platform busy) (profile (example_request (Fin 50)))
           [koshari_item]])
   \<and> http_response
        (fst (main_app_recommend (example_plan_platform busy) (example_request (Fin 50))
                example_plan_db))
     = (429, Detail quota_message)
   \<and> main_app_recommend (example_plan_platform down) (example_request (Fin 50)) example_plan_db
     = (Inl (HTTPStatusError 503),
        [build_prompt (example_plan_platform down) (profile (example_request (Fin 50)))
           [koshari_item]])
   \<and> http_response
        (fst (main_app_recommend (example_plan_platform down) (example_request (Fin 50))
                example_plan_db))
     = (500, InternalServerError)"
proof -
  have ne: "[koshari_item] \<noteq> []" by simp
  have r1: "hf_endpoint (example_plan_platform busy)
              (build_prompt (example_plan_platform busy) (profile (example_request (Fin 50)))
                 [koshari_item])
            = Response 429 (Inl [])" by (simp add: example_plan_platform_def busy_def)
  have r2: "hf_endpoint (example_plan_platform down)
              (build_prompt (example_plan_platform down) (profile (example_request (Fin 50)))
                 [koshari_item])
            = Response 503 (Inl [])" by (simp add: example_plan_platform_def down_def)
  have s1: "\<not> is_success 429" and s2: "\<not> is_success 503" by (simp_all add: is_success_def)
  from upstream_failure_translated_once [OF example_items ne r1 s1]
    upstream_failure_translated_once [OF example_items ne r2 s2]
  show ?thesis by simp
qed

subsection \<open>The echoed prompt\<close>

text \<open>
  \<open>strip\<close> removes a run of white space at each end and nothing else, and what it
  leaves neither starts nor ends with white space.
\<close>

lemma rev_split:
  "t = rev (dropWhile P (rev t)) @ rev (takeWhile P (rev t))"
proof -
  have "rev (rev t) = rev (takeWhile P (rev t) @ dropWhile P (rev t))"
    by (simp only: takeWhile_dropWhile_id)
  then show ?thesis by (simp only: rev_rev_ident rev_append)
qed

lemma strip_decomposition:
  "\<exists>a b. s = a @ strip s @ b \<and> (\<forall>c \<in> set a. isspace c) \<and> (\<forall>c \<in> set b. isspace c)"
proof -
  let ?t = "dropWhile isspace s"
  let ?a = "takeWhile isspace s"
  let ?b = "rev (takeWhile isspace (rev ?t))"
  have "s = ?a @ ?t" by (simp only: takeWhile_dropWhile_id)
  moreover have "?t = strip s @ ?b" unfolding strip_def by (rule rev_split)
  ultimately have "s = ?a @ strip s @ ?b" by (simp only:)
  moreover have "\<forall>c \<in> set ?a. isspace c" using set_takeWhileD [of _ isspace s] by blast
  moreover have "\<forall>c \<in> set ?b. isspace c"
    using set_takeWhileD [of _ isspace "rev ?t"] by (simp only: set_rev) blast
  ultimately show ?thesis by blast
qed

lemma strip_ends:
  assumes "strip s \<noteq> []"
  shows "\<not> isspace (hd (strip s))" and "\<not> isspace (last (strip s))"
proof -
  let ?t = "dropWhile isspace s"
  let ?u = "dropWhile isspace (rev ?t)"
  have s: "strip s = rev ?u" by (simp only: strip_def)
  have u: "?u \<noteq> []" using assms unfolding s by simp
  then have "\<not> isspace (hd ?u)" by (rule hd_dropWhile)
  then show "\<not> isspace (last (strip s))" using u unfolding s by (simp add: last_rev)
  have t: "?t \<noteq> []"
  proof
    assume a: "?t = []"
    have "?u = []" unfolding a by simp
    with u show False ..
  qed
  then have ht: "\<not> isspace (hd ?t)" by (rule hd_dropWhile)
  have "?t = rev ?u @ rev (takeWhile isspace (rev ?t))" by (rule rev_split)
  then have "hd ?t = hd (rev ?u @ rev (takeWhile isspace (rev ?t)))" by (simp only:)
  also have "\<dots> = hd (rev ?u)" using u by simp
  finally show "\<not> isspace (hd (strip s))" using ht unfolding s by simp
qed

text \<open>
  C2. When \<open>call_hf\<close> returns a text, the \<open>email_body\<close> of the response is the text
  after the prompt, stripped of leading and trailing white space, if the text starts
  with the prompt that \<open>build_prompt\<close> built, and the whole text unchanged otherwise.
\<close>

theorem email_body_without_echoed_prompt:
  assumes "fetch_affordable_items pp db (daily_budget_egp (profile req)) = items"
    and "items \<noteq> []"
    and "call_hf pp (build_prompt pp (profile req) items) [] = (Inr (JStr llm_answer), posted)"
  shows "main_app_recommend pp req db
           = (Inr (if prefix (build_prompt pp (profile req) items) llm_answer
                   then strip (drop (length (build_prompt pp (profile req) items)) llm_answer)
                   else llm_answer), posted)"
  using assms by (simp add: main_app_recommend_def Let_def)

text \<open>
  An answer that echoes the prompt gives the plan alone; an answer that does not
  start with the prompt is returned as it is, its white space included.
\<close>

theorem email_body_without_echoed_prompt_witness:
  "main_app_recommend (example_plan_platform echo) (example_request (Fin 50)) example_plan_db
     = (Inr (ustr ''Plan''),
        [build_prompt (example_plan_platform echo) (profile (example_request (Fin 50)))
           [koshari_item]])
   \<and> main_app_recommend (example_plan_platform plain) (example_request (Fin 50)) example_plan_db
     = (Inr (ustr '' Plan ''),
        [build_prompt (example_plan_platform plain) (profile (example_request (Fin 50)))
           [koshari_item]])"
proof -
  let ?P = "\<lambda>a. build_prompt (example_plan_platform a) (profile (example_request (Fin 50)))
                   [koshari_item]"
  have ne: "[koshari_item] \<noteq> []" by simp
  have c1: "call_hf (example_plan_platform echo) (?P echo) []
              = (Inr (JStr (?P echo @ [10, 32] @ ustr ''Plan'' @ [32, 10])), [?P echo])"
    by (simp add: call_hf_def example_plan_platform_def echo_def is_success_def
        generated_text_def Let_def)
  have c2: "call_hf (example_plan_platform plain) (?P plain) []
              = (Inr (JStr (ustr '' Plan '')), [?P plain])"
    by (simp add: call_hf_def example_plan_platform_def plain_def is_success_def
        generated_text_def Let_def)
  have s: "strip ([10, 32] @ ustr ''Plan'' @ [32, 10]) = ustr ''Plan''"
    by (simp add: strip_def isspace_def ustr_def)
  have "\<exists>rest. ?P plain = 72 # rest"
    by (simp add: build_prompt_def profile_line_def ustr_def Let_def)
  then have n: "\<not> prefix (?P plain) (ustr '' Plan '')" by (auto simp: ustr_def)
  have 1: "main_app_recommend (example_plan_platform echo) (example_request (Fin 50)) example_plan_db
     = (Inr (ustr ''Plan''), [?P echo])"
    using email_body_without_echoed_prompt [OF example_items ne c1] s by simp
  have 2: "main_app_recommend (example_plan_platform plain) (example_request (Fin 50)) example_plan_db
     = (Inr (ustr '' Plan ''), [?P plain])"
    using email_body_without_echoed_prompt [OF example_items ne c2] n by simp
  from 1 2 show ?thesis by (intro conjI)
qed

end
